theory Spec2Isabelle
  imports Complex_Main
begin

section \<open>JavaScript numbers\<close>

text \<open>
  Every quantity of the program is a JavaScript \<^verbatim>\<open>number\<close>. The model keeps the
  special values of IEEE-754 (the two infinities and NaN), since the code divides by
  counts that can be zero, and takes every finite operation as exact arithmetic on the
  reals: rounding is left out. There is one zero; where a division by zero occurs it is
  taken as the positive zero, which is the sign of a zero that comes out of a subtraction
  of equal counts or of a sum started at \<^verbatim>\<open>0\<close>. Where a result can leave the range of
  binary64, \<open>fit\<close> below brings it back as the machine does; where a claim is decided
  by the rounding itself, the functions concerned are given a second time with
  \<open>rnd\<close> below, under the name of the source and the suffix \<open>_b64\<close>.
\<close>

datatype jsnum = Fin real | PInf | NInf | NaN

fun jadd :: "jsnum \<Rightarrow> jsnum \<Rightarrow> jsnum" where
  "jadd NaN _ = NaN"
| "jadd _ NaN = NaN"
| "jadd (Fin a) (Fin b) = Fin (a + b)"
| "jadd PInf NInf = NaN"
| "jadd NInf PInf = NaN"
| "jadd PInf _ = PInf"
| "jadd NInf _ = NInf"
| "jadd (Fin a) PInf = PInf"
| "jadd (Fin a) NInf = NInf"

fun jneg :: "jsnum \<Rightarrow> jsnum" where
  "jneg (Fin a) = Fin (- a)"
| "jneg PInf = NInf"
| "jneg NInf = PInf"
| "jneg NaN = NaN"

definition jsub :: "jsnum \<Rightarrow> jsnum \<Rightarrow> jsnum" where
  "jsub a b = jadd a (jneg b)"

text \<open>The sign of a number: 1, -1, or 0 for zero; NaN has none.\<close>

fun jsign :: "jsnum \<Rightarrow> int option" where
  "jsign (Fin a) = Some (if a > 0 then 1 else if a < 0 then - 1 else 0)"
| "jsign PInf = Some 1"
| "jsign NInf = Some (- 1)"
| "jsign NaN = None"

definition inf_of_sign :: "int \<Rightarrow> jsnum" where
  "inf_of_sign s = (if s > 0 then PInf else if s < 0 then NInf else NaN)"

fun jmul :: "jsnum \<Rightarrow> jsnum \<Rightarrow> jsnum" where
  "jmul (Fin a) (Fin b) = Fin (a * b)"
| "jmul a b =
     (case (jsign a, jsign b) of
        (Some s, Some t) \<Rightarrow> inf_of_sign (s * t)
      | _ \<Rightarrow> NaN)"

fun jdiv :: "jsnum \<Rightarrow> jsnum \<Rightarrow> jsnum" where
  "jdiv (Fin a) (Fin b) =
     (if b \<noteq> 0 then Fin (a / b)
      else if a > 0 then PInf else if a < 0 then NInf else NaN)"
| "jdiv NaN _ = NaN"
| "jdiv _ NaN = NaN"
| "jdiv (Fin a) _ = Fin 0"
| "jdiv PInf (Fin b) = (if b \<ge> 0 then PInf else NInf)"
| "jdiv NInf (Fin b) = (if b \<ge> 0 then NInf else PInf)"
| "jdiv _ _ = NaN"

fun jabs :: "jsnum \<Rightarrow> jsnum" where
  "jabs (Fin a) = Fin \<bar>a\<bar>"
| "jabs PInf = PInf"
| "jabs NInf = PInf"
| "jabs NaN = NaN"

fun jsqrt :: "jsnum \<Rightarrow> jsnum" where
  "jsqrt (Fin a) = (if a < 0 then NaN else Fin (sqrt a))"
| "jsqrt PInf = PInf"
| "jsqrt NInf = NaN"
| "jsqrt NaN = NaN"

text \<open>\<^verbatim>\<open>a > b\<close> and \<^verbatim>\<open>a < b\<close>: false as soon as one side is NaN.\<close>

fun jgt :: "jsnum \<Rightarrow> jsnum \<Rightarrow> bool" where
  "jgt NaN _ = False"
| "jgt _ NaN = False"
| "jgt (Fin a) (Fin b) = (a > b)"
| "jgt PInf PInf = False"
| "jgt PInf _ = True"
| "jgt NInf _ = False"
| "jgt (Fin a) PInf = False"
| "jgt (Fin a) NInf = True"

definition jlt :: "jsnum \<Rightarrow> jsnum \<Rightarrow> bool" where
  "jlt a b = jgt b a"

text \<open>\<^verbatim>\<open>Math.min\<close> and \<^verbatim>\<open>Math.max\<close>: NaN as soon as one argument is NaN.\<close>

fun jmin :: "jsnum \<Rightarrow> jsnum \<Rightarrow> jsnum" where
  "jmin NaN _ = NaN"
| "jmin _ NaN = NaN"
| "jmin a b = (if jgt a b then b else a)"

fun jmax :: "jsnum \<Rightarrow> jsnum \<Rightarrow> jsnum" where
  "jmax NaN _ = NaN"
| "jmax _ NaN = NaN"
| "jmax a b = (if jgt b a then b else a)"

text \<open>
  \<^verbatim>\<open>x || d\<close> on a number that may be missing: \<^verbatim>\<open>undefined\<close>, \<^verbatim>\<open>0\<close> and
  \<^verbatim>\<open>NaN\<close> are falsy and give \<open>d\<close>.
\<close>

fun jor :: "jsnum option \<Rightarrow> jsnum \<Rightarrow> jsnum" where
  "jor None d = d"
| "jor (Some NaN) d = d"
| "jor (Some (Fin a)) d = (if a = 0 then d else Fin a)"
| "jor (Some x) d = x"

text \<open>
  The range of binary64, under rounding to nearest with ties to even. The largest finite
  number is \<open>2\<^sup>1\<^sup>0\<^sup>2\<^sup>4 - 2\<^sup>9\<^sup>7\<^sup>1\<close>, and an exact result of magnitude
  \<open>2\<^sup>1\<^sup>0\<^sup>2\<^sup>4 - 2\<^sup>9\<^sup>7\<^sup>0\<close> or more rounds to the infinity of its sign. The
  smallest positive number is \<open>2\<^sup>-\<^sup>1\<^sup>0\<^sup>7\<^sup>4\<close>, and an exact result of magnitude
  \<open>2\<^sup>-\<^sup>1\<^sup>0\<^sup>7\<^sup>5\<close> or less rounds to zero. \<open>fit\<close> takes the exact result of an
  operation to what the machine keeps of it, rounding within the range left out.
\<close>

definition overflow_threshold :: real where
  "overflow_threshold = 2 ^ 1024 - 2 ^ 970"

definition underflow_threshold :: real where
  "underflow_threshold = 1 / 2 ^ 1075"

fun fit :: "jsnum \<Rightarrow> jsnum" where
  "fit (Fin x) =
     (if overflow_threshold \<le> x then PInf
      else if x \<le> - overflow_threshold then NInf
      else if \<bar>x\<bar> \<le> underflow_threshold then Fin 0
      else Fin x)"
| "fit PInf = PInf"
| "fit NInf = NInf"
| "fit NaN = NaN"

text \<open>
  Rounding within the range. A finite number of binary64 is an integer of at most 53
  bits times a power of two; for \<open>2\<^sup>e \<le> |x| < 2\<^sup>e\<^sup>+\<^sup>1\<close> the unit in the last place is
  \<open>2\<^sup>e\<^sup>-\<^sup>5\<^sup>2\<close>, and \<open>2\<^sup>-\<^sup>1\<^sup>0\<^sup>7\<^sup>4\<close> below \<open>2\<^sup>-\<^sup>1\<^sup>0\<^sup>2\<^sup>2\<close>. Every arithmetic operation
  of JavaScript, and every decimal literal, gives the exact result rounded to the
  nearest such number, a tie going to the one whose integer is even: \<open>b64\<close>, and \<open>rnd\<close>
  on the numbers of the model. \<open>radd\<close>, \<open>rsub\<close>, \<open>rmul\<close> and \<open>rdiv\<close> are \<^verbatim>\<open>+\<close>, \<^verbatim>\<open>-\<close>,
  \<^verbatim>\<open>*\<close> and \<^verbatim>\<open>/\<close> as the machine computes them.
\<close>

definition round_even :: "real \<Rightarrow> int" where
  "round_even y =
     (let f = \<lfloor>y\<rfloor>; d = y - of_int f
      in if d < 1 / 2 then f else if 1 / 2 < d then f + 1 else if even f then f else f + 1)"

definition pow2 :: "int \<Rightarrow> real" where
  "pow2 e = (if 0 \<le> e then 2 ^ nat e else 1 / 2 ^ nat (- e))"

definition ulp_exp :: "real \<Rightarrow> int" where
  "ulp_exp x = max \<lfloor>log 2 \<bar>x\<bar>\<rfloor> (- 1022) - 52"

definition b64 :: "real \<Rightarrow> real" where
  "b64 x = (if x = 0 then 0 else of_int (round_even (x / pow2 (ulp_exp x))) * pow2 (ulp_exp x))"

fun rnd :: "jsnum \<Rightarrow> jsnum" where
  "rnd (Fin x) = fit (Fin (b64 x))"
| "rnd PInf = PInf"
| "rnd NInf = NInf"
| "rnd NaN = NaN"

definition radd :: "jsnum \<Rightarrow> jsnum \<Rightarrow> jsnum" where
  "radd a b = rnd (jadd a b)"

definition rsub :: "jsnum \<Rightarrow> jsnum \<Rightarrow> jsnum" where
  "rsub a b = rnd (jsub a b)"

definition rmul :: "jsnum \<Rightarrow> jsnum \<Rightarrow> jsnum" where
  "rmul a b = rnd (jmul a b)"

definition rdiv :: "jsnum \<Rightarrow> jsnum \<Rightarrow> jsnum" where
  "rdiv a b = rnd (jdiv a b)"

section \<open>OrcaClient: the closed-form loss\<close>

text \<open>
  \<^verbatim>\<open>OrcaClient.calculateImpermanentLoss(initialPriceRatio, currentPriceRatio)\<close>:
  \<^verbatim>\<open>priceRatioChange = currentPriceRatio / initialPriceRatio\<close>, then
  \<^verbatim>\<open>2 * Math.sqrt(priceRatioChange) / (1 + priceRatioChange) - 1\<close>, times 100.
  The quotient of two finite numbers can be as large as \<open>2\<^sup>2\<^sup>0\<^sup>9\<^sup>8\<close> and as small as
  \<open>2\<^sup>-\<^sup>2\<^sup>0\<^sup>9\<^sup>8\<close>, so the ratio is where the range of binary64 is left, and \<open>fit\<close> is
  applied to it. From a finite ratio that is not zero the later operations stay in
  range: its square root lies between \<open>2\<^sup>-\<^sup>5\<^sup>3\<^sup>7\<close> and \<open>2\<^sup>5\<^sup>1\<^sup>2\<close>, \<open>1\<close> added to the
  largest finite number rounds back to it, and the quotient of the two lies between
  \<open>2\<^sup>-\<^sup>5\<^sup>3\<^sup>7\<close> and 1.
\<close>

definition calculateImpermanentLoss :: "jsnum \<Rightarrow> jsnum \<Rightarrow> jsnum" where
  "calculateImpermanentLoss initialPriceRatio currentPriceRatio =
     (let priceRatioChange = fit (jdiv currentPriceRatio initialPriceRatio);
          impermanentLoss =
            jsub (jdiv (jmul (Fin 2) (jsqrt priceRatioChange))
                       (jadd (Fin 1) priceRatioChange))
                 (Fin 1)
      in jmul impermanentLoss (Fin 100))"

section \<open>Pool configuration\<close>

datatype risk_level = Low | Medium | High

datatype hedge_type = Bluechip | Stablecoin | Hedge

record PoolConfig =
  cfg_id :: string
  cfg_name :: string
  cfg_symbol :: string
  cfg_address :: string
  cfg_token0 :: string
  cfg_token1 :: string
  cfg_description :: string
  cfg_riskLevel :: risk_level
  cfg_hedgeType :: hedge_type

text \<open>
  \<^verbatim>\<open>SUPPORTED_POOLS\<close>, \<^verbatim>\<open>POOL_CORRELATIONS\<close> and \<^verbatim>\<open>DEFAULT_ALLOCATION_WEIGHTS\<close>
  are object literals; an association list keeps the order of \<^verbatim>\<open>Object.entries\<close>.
\<close>

definition SUPPORTED_POOLS :: "(string \<times> PoolConfig) list" where
  "SUPPORTED_POOLS =
    [(''SOL_USDC'',
      \<lparr>cfg_id = ''SOL_USDC'', cfg_name = ''SOL/USDC Pool'', cfg_symbol = ''SOL-USDC'',
       cfg_address = ''Czfq3xZZDmsdGdUyrNLtRhGc47cXcZtLG4crryfu44zE'',
       cfg_token0 = ''SOL'', cfg_token1 = ''USDC'',
       cfg_description = ''Solana native token paired with USDC stablecoin'',
       cfg_riskLevel = High, cfg_hedgeType = Bluechip\<rparr>),
     (''CBBTC_USDC'',
      \<lparr>cfg_id = ''CBBTC_USDC'', cfg_name = ''cbBTC/USDC Pool'', cfg_symbol = ''cbBTC-USDC'',
       cfg_address = ''HxA6SKW5qA4o12fjVgTpXdq2YnZ5Zv1s7SB4FFomsyLM'',
       cfg_token0 = ''cbBTC'', cfg_token1 = ''USDC'',
       cfg_description = ''Coinbase wrapped Bitcoin paired with USDC'',
       cfg_riskLevel = Medium, cfg_hedgeType = Bluechip\<rparr>),
     (''EURC_USDC'',
      \<lparr>cfg_id = ''EURC_USDC'', cfg_name = ''EURC/USDC Pool'', cfg_symbol = ''EURC-USDC'',
       cfg_address = ''ArisQNcbjXPJD7RgPRvysatX3xcfHPTbcTkfD8kDoZ9i'',
       cfg_token0 = ''EURC'', cfg_token1 = ''USDC'',
       cfg_description = ''Euro Coin paired with USDC - Primary hedge asset'',
       cfg_riskLevel = Low, cfg_hedgeType = Hedge\<rparr>),
     (''USDT_USDC'',
      \<lparr>cfg_id = ''USDT_USDC'', cfg_name = ''USDT/USDC Pool'', cfg_symbol = ''USDT-USDC'',
       cfg_address = ''4fuUiYxTQ6QCrdSq9ouBYcTM7bqSwYTSyLueGZLTy4T4'',
       cfg_token0 = ''USDT'', cfg_token1 = ''USDC'',
       cfg_description = ''Tether USD paired with USDC - Low volatility stablecoin pair'',
       cfg_riskLevel = Low, cfg_hedgeType = Stablecoin\<rparr>),
     (''WETH_USDC'',
      \<lparr>cfg_id = ''WETH_USDC'', cfg_name = ''WETH/USDC Pool'', cfg_symbol = ''WETH-USDC'',
       cfg_address = ''AU971DrPyhhrpRnmEBp5pDTWL2ny7nofb5vYBjDJkR2E'',
       cfg_token0 = ''WETH'', cfg_token1 = ''USDC'',
       cfg_description = ''Wrapped Ethereum paired with USDC'',
       cfg_riskLevel = Medium, cfg_hedgeType = Bluechip\<rparr>)]"

definition POOL_CORRELATIONS :: "(string \<times> (string \<times> jsnum) list) list" where
  "POOL_CORRELATIONS =
    [(''SOL_USDC'',
      [(''CBBTC_USDC'', Fin 0.65), (''WETH_USDC'', Fin 0.70),
       (''EURC_USDC'', Fin (- 0.15)), (''USDT_USDC'', Fin 0.05)]),
     (''CBBTC_USDC'',
      [(''SOL_USDC'', Fin 0.65), (''WETH_USDC'', Fin 0.75),
       (''EURC_USDC'', Fin (- 0.10)), (''USDT_USDC'', Fin 0.02)]),
     (''WETH_USDC'',
      [(''SOL_USDC'', Fin 0.70), (''CBBTC_USDC'', Fin 0.75),
       (''EURC_USDC'', Fin (- 0.12)), (''USDT_USDC'', Fin 0.03)]),
     (''EURC_USDC'',
      [(''SOL_USDC'', Fin (- 0.15)), (''CBBTC_USDC'', Fin (- 0.10)),
       (''WETH_USDC'', Fin (- 0.12)), (''USDT_USDC'', Fin 0.85)]),
     (''USDT_USDC'',
      [(''SOL_USDC'', Fin 0.05), (''CBBTC_USDC'', Fin 0.02),
       (''WETH_USDC'', Fin 0.03), (''EURC_USDC'', Fin 0.85)])]"

definition DEFAULT_ALLOCATION_WEIGHTS :: "(string \<times> jsnum) list" where
  "DEFAULT_ALLOCATION_WEIGHTS =
    [(''SOL_USDC'', Fin 0.25), (''CBBTC_USDC'', Fin 0.20), (''WETH_USDC'', Fin 0.20),
     (''EURC_USDC'', Fin 0.20), (''USDT_USDC'', Fin 0.15)]"

section \<open>PriceWebSocketService\<close>

record PriceUpdate =
  pu_poolId :: string
  pu_poolAddress :: string
  pu_price :: jsnum
  pu_timestamp :: int
  pu_change :: jsnum

record VolumeUpdate =
  vu_poolId :: string
  vu_poolAddress :: string
  vu_volume24h :: jsnum
  vu_timestamp :: int

datatype severity = SevHigh | SevMedium

text \<open>
  The payload of a \<^verbatim>\<open>priceAlert\<close>; its \<^verbatim>\<open>message\<close>, a formatted string, is left out.
\<close>

record PriceAlert =
  pa_poolId :: string
  pa_severity :: severity
  pa_timestamp :: int

text \<open>What \<^verbatim>\<open>this.emit\<close> sends, by event name.\<close>

datatype ws_event =
    EvConnected
  | EvError string
  | EvPriceUpdate PriceUpdate
  | EvVolumeUpdate VolumeUpdate
  | EvPriceAlert PriceAlert

text \<open>
  The fields of the service, the timers it has set with \<^verbatim>\<open>setTimeout\<close> (each is a
  delay in milliseconds, after which \<^verbatim>\<open>connect()\<close> is called), in the order they were
  set, and the events emitted so far.
\<close>

record ws_state =
  subscriptions :: "string \<rightharpoonup> nat"
  priceUpdateInterval :: bool
  isConnected :: bool
  reconnectAttempts :: nat
  timers :: "nat list"
  emitted :: "ws_event list"

definition maxReconnectAttempts :: nat where
  "maxReconnectAttempts = 5"

definition initial_ws :: ws_state where
  "initial_ws =
     \<lparr>subscriptions = Map.empty, priceUpdateInterval = False, isConnected = False,
      reconnectAttempts = 0, timers = [], emitted = []\<rparr>"

definition emit :: "ws_event \<Rightarrow> ws_state \<Rightarrow> ws_state" where
  "emit e s = s\<lparr>emitted := emitted s @ [e]\<rparr>"

text \<open>\<^verbatim>\<open>handleConnectionError\<close>: give up at the limit, else count and schedule a retry.\<close>

definition handleConnectionError :: "ws_state \<Rightarrow> ws_state" where
  "handleConnectionError s =
     (if reconnectAttempts s \<ge> maxReconnectAttempts
      then emit (EvError ''Unable to establish WebSocket connection'') s
      else
        let s1 = s\<lparr>reconnectAttempts := reconnectAttempts s + 1\<rparr>;
            delay = min (1000 * 2 ^ reconnectAttempts s1) 30000
        in s1\<lparr>timers := timers s1 @ [delay]\<rparr>)"

text \<open>
  The body of the loop of \<^verbatim>\<open>subscribeToPools\<close>: a pool id that is not configured is
  skipped, and so is one that is subscribed already. \<^verbatim>\<open>new PublicKey\<close> and
  \<^verbatim>\<open>connection.onAccountChange\<close> return the subscription id or throw, and the loop
  catches what they throw, pool by pool: the RPC connection is the input
  \<open>onAccountChange\<close>, from the address of the pool to the subscription id, \<open>None\<close> when
  the call throws.
\<close>

definition subscribePool :: "(string \<Rightarrow> nat option) \<Rightarrow> string \<Rightarrow> ws_state \<Rightarrow> ws_state" where
  "subscribePool onAccountChange poolId s =
     (case map_of SUPPORTED_POOLS poolId of
        None \<Rightarrow> s
      | Some poolConfig \<Rightarrow>
          if subscriptions s poolId \<noteq> None then s
          else
            case onAccountChange (cfg_address poolConfig) of
              None \<Rightarrow> s
            | Some subscriptionId \<Rightarrow>
                s\<lparr>subscriptions := (subscriptions s)(poolId \<mapsto> subscriptionId)\<rparr>)"

text \<open>\<^verbatim>\<open>startPriceUpdateSimulation\<close> sets the interval unless it is set.\<close>

definition startPriceUpdateSimulation :: "ws_state \<Rightarrow> ws_state" where
  "startPriceUpdateSimulation s =
     (if priceUpdateInterval s then s else s\<lparr>priceUpdateInterval := True\<rparr>)"

text \<open>
  \<^verbatim>\<open>connect\<close>, \<^verbatim>\<open>subscribeToPools\<close> and \<^verbatim>\<open>subscribeToPoolAccounts\<close> call one another:
  the \<^verbatim>\<open>try\<close> block of \<^verbatim>\<open>connect\<close> starts with \<^verbatim>\<open>subscribeToPoolAccounts()\<close>, that is
  \<^verbatim>\<open>subscribeToPools\<close> of all configured ids, which starts with \<^verbatim>\<open>connect()\<close> while
  \<^verbatim>\<open>isConnected\<close> is false, and \<^verbatim>\<open>isConnected\<close> is set only after
  \<^verbatim>\<open>subscribeToPoolAccounts()\<close> has returned. Each function runs up to its first
  \<^verbatim>\<open>await\<close> on the stack of its caller, so a \<^verbatim>\<open>connect()\<close> on a disconnected service
  nests until the call stack is exhausted. \<open>room\<close> is the number of nested \<^verbatim>\<open>connect\<close>
  calls the stack still has room for. With none left, the \<^verbatim>\<open>RangeError\<close> of the
  exhausted stack is thrown in the \<^verbatim>\<open>try\<close> block of the innermost \<^verbatim>\<open>connect\<close>, whose
  \<^verbatim>\<open>catch\<close> block calls \<^verbatim>\<open>handleConnectionError\<close>; that \<^verbatim>\<open>connect\<close> then returns
  normally, and every enclosing call goes on after its \<^verbatim>\<open>await\<close>.
\<close>

fun connect :: "nat \<Rightarrow> (string \<Rightarrow> nat option) \<Rightarrow> ws_state \<Rightarrow> ws_state"
and subscribeToPools ::
  "nat \<Rightarrow> (string \<Rightarrow> nat option) \<Rightarrow> string list \<Rightarrow> ws_state \<Rightarrow> ws_state"
and subscribeToPoolAccounts :: "nat \<Rightarrow> (string \<Rightarrow> nat option) \<Rightarrow> ws_state \<Rightarrow> ws_state"
where
  "connect room onAccountChange s =
     (if isConnected s then s
      else
        case room of
          0 \<Rightarrow> handleConnectionError s
        | Suc n \<Rightarrow>
            let s1 = subscribeToPoolAccounts n onAccountChange s;
                s2 = startPriceUpdateSimulation s1
            in emit EvConnected (s2\<lparr>isConnected := True, reconnectAttempts := 0\<rparr>))"
| "subscribeToPools room onAccountChange poolIds s =
     fold (subscribePool onAccountChange) poolIds
       (if \<not> isConnected s then connect room onAccountChange s else s)"
| "subscribeToPoolAccounts room onAccountChange s =
     subscribeToPools room onAccountChange (map fst SUPPORTED_POOLS) s"

declare connect.simps [simp del] subscribeToPools.simps [simp del]
  subscribeToPoolAccounts.simps [simp del]


text \<open>
  The callback that \<^verbatim>\<open>startPriceUpdateSimulation\<close> runs every 5 seconds. For each
  subscribed pool it draws \<^verbatim>\<open>Math.random()\<close> up to three times and reads the clock;
  the draws and the clock readings are inputs, per pool. \<^verbatim>\<open>Math.random()\<close> lies in
  \<open>[0, 1)\<close>, which keeps the simulated change within half a percent; the record takes
  any real, so that the callback can be followed on a tick of any size, as from the feed
  that the comments say is to replace the simulation.
\<close>

definition basePrices :: "(string \<times> jsnum) list" where
  "basePrices =
     [(''SOL_USDC'', Fin 221.85), (''CBBTC_USDC'', Fin 102850), (''WETH_USDC'', Fin 3850),
      (''EURC_USDC'', Fin 1.059), (''USDT_USDC'', Fin 1.0001)]"

record draws =
  rnd_change :: real
  rnd_gate :: real
  rnd_volume :: real
  now_price :: int
  now_volume :: int

definition tickPool :: "draws \<Rightarrow> string \<times> PoolConfig \<Rightarrow> ws_state \<Rightarrow> ws_state" where
  "tickPool d entry s =
     (let poolId = fst entry; poolConfig = snd entry in
      if subscriptions s poolId = None then s
      else
        let basePrice = jor (map_of basePrices poolId) (Fin 100);
            change = jmul (jsub (Fin (rnd_change d)) (Fin 0.5)) (Fin 0.01);
            newPrice = jmul basePrice (jadd (Fin 1) change);
            priceUpdate =
              \<lparr>pu_poolId = poolId, pu_poolAddress = cfg_address poolConfig,
               pu_price = newPrice, pu_timestamp = now_price d,
               pu_change = jmul change (Fin 100)\<rparr>;
            s1 = emit (EvPriceUpdate priceUpdate) s
        in
          if jgt (Fin (rnd_gate d)) (Fin 0.7)
          then emit (EvVolumeUpdate
                 \<lparr>vu_poolId = poolId, vu_poolAddress = cfg_address poolConfig,
                  vu_volume24h =
                    jadd (jmul (Fin (rnd_volume d)) (Fin 10000000)) (Fin 1000000),
                  vu_timestamp = now_volume d\<rparr>) s1
          else s1)"

definition priceTick :: "(string \<Rightarrow> draws) \<Rightarrow> ws_state \<Rightarrow> ws_state" where
  "priceTick ds s = fold (\<lambda>entry. tickPool (ds (fst entry)) entry) SUPPORTED_POOLS s"

section \<open>OrcaClient: pool data behind the cache\<close>

record token =
  symbol :: string
  mint :: string
  decimals :: nat

record PoolData =
  pd_address :: string
  pd_tokenA :: token
  pd_tokenB :: token
  pd_price :: jsnum
  pd_liquidity :: jsnum
  pd_volume24h :: jsnum
  pd_fee :: jsnum
  pd_apy :: jsnum
  pd_tvl :: jsnum

record PriceData =
  pr_poolAddress :: string
  pr_currentPrice :: jsnum
  pr_priceChange24h :: jsnum
  pr_priceChange7d :: jsnum
  pr_high24h :: jsnum
  pr_low24h :: jsnum
  pr_timestamp :: int

definition CACHE_PREFIX :: string where
  "CACHE_PREFIX = ''orca_cache_''"

definition CACHE_TTL :: int where
  "CACHE_TTL = 30000"

definition PRICE_CACHE_TTL :: int where
  "PRICE_CACHE_TTL = 5000"

definition cacheEnabled :: bool where
  "cacheEnabled = True"

text \<open>
  \<^verbatim>\<open>AsyncStorage\<close> holds, under each key, the JSON text of \<^verbatim>\<open>{data, timestamp}\<close>; the
  model keeps the pair itself, for the keys of pool data, and takes every read and
  write of the storage to succeed. \<open>rpcLog\<close> lists the addresses
  for which the RPC node was asked (\<^verbatim>\<open>connection.getAccountInfo\<close>): it is how the model
  tells whether the upstream source was contacted.
\<close>

record orca =
  storage :: "string \<rightharpoonup> PoolData \<times> int"
  rpcLog :: "string list"

text \<open>
  \<^verbatim>\<open>getFromCache(key, ttl)\<close>, with the reading of \<^verbatim>\<open>Date.now()\<close> as \<open>now\<close>: an entry
  older than \<open>ttl\<close> is removed.
\<close>

definition getFromCache :: "orca \<Rightarrow> string \<Rightarrow> int \<Rightarrow> int \<Rightarrow> PoolData option \<times> orca" where
  "getFromCache st key ttl now =
     (if \<not> cacheEnabled then (None, st)
      else case storage st (CACHE_PREFIX @ key) of
        None \<Rightarrow> (None, st)
      | Some (data, timestamp) \<Rightarrow>
          if now - timestamp > ttl
          then (None, st\<lparr>storage := (storage st)(CACHE_PREFIX @ key := None)\<rparr>)
          else (Some data, st))"

definition saveToCache :: "orca \<Rightarrow> string \<Rightarrow> PoolData \<Rightarrow> int \<Rightarrow> orca" where
  "saveToCache st key data now =
     (if \<not> cacheEnabled then st
      else st\<lparr>storage := (storage st)(CACHE_PREFIX @ key \<mapsto> (data, now))\<rparr>)"

text \<open>
  \<^verbatim>\<open>fetchPoolDataFromAPI\<close>: the table \<^verbatim>\<open>mockPools\<close>, spread over \<^verbatim>\<open>{address}\<close>. For an
  address outside the table the other fields are \<^verbatim>\<open>undefined\<close>: the model gives NaN
  for the numbers (what arithmetic on \<^verbatim>\<open>undefined\<close> yields) and empty token fields.
\<close>

definition usdc :: token where
  "usdc = \<lparr>symbol = ''USDC'', mint = ''EPjFWdd5AufqSSqeM2qN1xzybapC8G4wEGGkZwyTDt1v'',
           decimals = 6\<rparr>"

definition mockPools :: "(string \<times> PoolData) list" where
  "mockPools =
    [(''Czfq3xZZDmsdGdUyrNLtRhGc47cXcZtLG4crryfu44zE'',
      \<lparr>pd_address = ''Czfq3xZZDmsdGdUyrNLtRhGc47cXcZtLG4crryfu44zE'',
       pd_tokenA = \<lparr>symbol = ''SOL'',
         mint = ''So11111111111111111111111111111111111111112'', decimals = 9\<rparr>,
       pd_tokenB = usdc, pd_price = Fin 221.85, pd_liquidity = Fin 45200000,
       pd_volume24h = Fin 12800000, pd_fee = Fin 0.25, pd_apy = Fin 12.4,
       pd_tvl = Fin 45200000\<rparr>),
     (''HxA6SKW5qA4o12fjVgTpXdq2YnZ5Zv1s7SB4FFomsyLM'',
      \<lparr>pd_address = ''HxA6SKW5qA4o12fjVgTpXdq2YnZ5Zv1s7SB4FFomsyLM'',
       pd_tokenA = \<lparr>symbol = ''cbBTC'', mint = ''cbBTCmint'', decimals = 8\<rparr>,
       pd_tokenB = usdc, pd_price = Fin 102850, pd_liquidity = Fin 67800000,
       pd_volume24h = Fin 18400000, pd_fee = Fin 0.25, pd_apy = Fin 8.7,
       pd_tvl = Fin 67800000\<rparr>),
     (''ArisQNcbjXPJD7RgPRvysatX3xcfHPTbcTkfD8kDoZ9i'',
      \<lparr>pd_address = ''ArisQNcbjXPJD7RgPRvysatX3xcfHPTbcTkfD8kDoZ9i'',
       pd_tokenA = \<lparr>symbol = ''EURC'', mint = ''EURCmint'', decimals = 6\<rparr>,
       pd_tokenB = usdc, pd_price = Fin 1.059, pd_liquidity = Fin 28500000,
       pd_volume24h = Fin 3200000, pd_fee = Fin 0.05, pd_apy = Fin 4.2,
       pd_tvl = Fin 28500000\<rparr>),
     (''4fuUiYxTQ6QCrdSq9ouBYcTM7bqSwYTSyLueGZLTy4T4'',
      \<lparr>pd_address = ''4fuUiYxTQ6QCrdSq9ouBYcTM7bqSwYTSyLueGZLTy4T4'',
       pd_tokenA = \<lparr>symbol = ''USDT'', mint = ''USDTmint'', decimals = 6\<rparr>,
       pd_tokenB = usdc, pd_price = Fin 1.0001, pd_liquidity = Fin 52000000,
       pd_volume24h = Fin 8500000, pd_fee = Fin 0.01, pd_apy = Fin 3.1,
       pd_tvl = Fin 52000000\<rparr>),
     (''AU971DrPyhhrpRnmEBp5pDTWL2ny7nofb5vYBjDJkR2E'',
      \<lparr>pd_address = ''AU971DrPyhhrpRnmEBp5pDTWL2ny7nofb5vYBjDJkR2E'',
       pd_tokenA = \<lparr>symbol = ''WETH'', mint = ''WETHmint'', decimals = 8\<rparr>,
       pd_tokenB = usdc, pd_price = Fin 3850, pd_liquidity = Fin 38400000,
       pd_volume24h = Fin 9200000, pd_fee = Fin 0.25, pd_apy = Fin 9.8,
       pd_tvl = Fin 38400000\<rparr>)]"

definition fetchPoolDataFromAPI :: "string \<Rightarrow> PoolData" where
  "fetchPoolDataFromAPI poolAddress =
     (case map_of mockPools poolAddress of
        Some pd \<Rightarrow> pd
      | None \<Rightarrow>
          \<lparr>pd_address = poolAddress,
           pd_tokenA = \<lparr>symbol = [], mint = [], decimals = 0\<rparr>,
           pd_tokenB = \<lparr>symbol = [], mint = [], decimals = 0\<rparr>,
           pd_price = NaN, pd_liquidity = NaN, pd_volume24h = NaN, pd_fee = NaN,
           pd_apy = NaN, pd_tvl = NaN\<rparr>)"

text \<open>
  What the RPC node answers to \<^verbatim>\<open>getAccountInfo\<close>: the call throws (as does
  \<^verbatim>\<open>new PublicKey\<close> on a malformed address), the account does not exist, or it does.
\<close>

datatype rpc_answer = RpcThrows | RpcNoAccount | RpcAccount

text \<open>
  \<^verbatim>\<open>getPoolData(poolAddress)\<close>. \<open>now\<close> is the clock when the cache is read,
  \<open>later\<close> the clock when the fresh record is saved; every exception ends in
  \<^verbatim>\<open>return null\<close>.
\<close>

definition getPoolData ::
    "orca \<Rightarrow> string \<Rightarrow> int \<Rightarrow> int \<Rightarrow> rpc_answer \<Rightarrow> PoolData option \<times> orca" where
  "getPoolData st poolAddress now later answer =
     (case getFromCache st (''pool_'' @ poolAddress) CACHE_TTL now of
        (Some cached, st1) \<Rightarrow> (Some cached, st1)
      | (None, st1) \<Rightarrow>
          (let st2 = st1\<lparr>rpcLog := rpcLog st1 @ [poolAddress]\<rparr> in
           case answer of
             RpcThrows \<Rightarrow> (None, st2)
           | RpcNoAccount \<Rightarrow> (None, st2)
           | RpcAccount \<Rightarrow>
               (let poolData = fetchPoolDataFromAPI poolAddress
                in (Some poolData, saveToCache st2 (''pool_'' @ poolAddress) poolData later))))"

text \<open>
  \<^verbatim>\<open>fetchPriceDataFromAPI\<close>, given what its call of \<^verbatim>\<open>getPoolData\<close> returned, the
  draw of \<^verbatim>\<open>Math.random()\<close> and the clock. A thrown \<^verbatim>\<open>Error\<close> is \<open>Inl\<close> of its message.
\<close>

definition fetchPriceDataFromAPI ::
    "PoolData option \<Rightarrow> string \<Rightarrow> real \<Rightarrow> int \<Rightarrow> string + PriceData" where
  "fetchPriceDataFromAPI poolData poolAddress random now =
     (case poolData of
        None \<Rightarrow> Inl ''Pool data not found''
      | Some pd \<Rightarrow>
          (let randomChange = jmul (jsub (Fin random) (Fin 0.5)) (Fin 0.1);
               currentPrice = jmul (pd_price pd) (jadd (Fin 1) randomChange)
           in Inr \<lparr>pr_poolAddress = poolAddress,
                   pr_currentPrice = currentPrice,
                   pr_priceChange24h = jmul randomChange (Fin 100),
                   pr_priceChange7d = jmul randomChange (Fin 200),
                   pr_high24h = jmul currentPrice (Fin 1.05),
                   pr_low24h = jmul currentPrice (Fin 0.95),
                   pr_timestamp = now\<rparr>))"

section \<open>PoolDataAggregator\<close>

text \<open>
  The aggregator reads pools and prices through the client. Within one computation the
  model takes the client's answers as functions of the pool address: \<open>None\<close> is the
  client's \<^verbatim>\<open>null\<close>.
\<close>

record client =
  poolDataAt :: "string \<Rightarrow> PoolData option"
  priceDataAt :: "string \<Rightarrow> PriceData option"

text \<open>
  The client over the mock tables, every pool found and every price drawn with the same
  \<^verbatim>\<open>Math.random()\<close> value.
\<close>

definition mockClient :: "real \<Rightarrow> int \<Rightarrow> client" where
  "mockClient random now =
     \<lparr>poolDataAt = (\<lambda>a. Some (fetchPoolDataFromAPI a)),
      priceDataAt = (\<lambda>a.
        case fetchPriceDataFromAPI (Some (fetchPoolDataFromAPI a)) a random now of
          Inl _ \<Rightarrow> None
        | Inr priceData \<Rightarrow> Some priceData)\<rparr>"

record optimal_range =
  lowerPrice :: jsnum
  upperPrice :: jsnum
  expectedAPY :: jsnum

text \<open>\<^verbatim>\<open>OrcaClient.calculateOptimalRange(poolAddress, investment, riskTolerance)\<close>.\<close>

definition calculateOptimalRange ::
    "client \<Rightarrow> string \<Rightarrow> jsnum \<Rightarrow> risk_level \<Rightarrow> string + optimal_range" where
  "calculateOptimalRange cl poolAddress investment riskTolerance =
     (case priceDataAt cl poolAddress of
        None \<Rightarrow> Inl ''Unable to fetch price data''
      | Some priceData \<Rightarrow>
          (let multiplier =
                 (case riskTolerance of
                    Low \<Rightarrow> Fin 0.05 | Medium \<Rightarrow> Fin 0.10 | High \<Rightarrow> Fin 0.20);
               currentPrice = pr_currentPrice priceData;
               lowerPrice = jmul currentPrice (jsub (Fin 1) multiplier);
               upperPrice = jmul currentPrice (jadd (Fin 1) multiplier);
               baseAPY = Fin 10;
               rangeBonus = jmul (jdiv (Fin 1) multiplier) (Fin 0.5);
               expectedAPY = jadd baseAPY rangeBonus
           in Inr \<lparr>lowerPrice = lowerPrice, upperPrice = upperPrice,
                   expectedAPY = jmin expectedAPY (Fin 50)\<rparr>))"

datatype trend_dir = Bull | Bear | Stable

record price_range =
  rg_lower :: jsnum
  rg_upper :: jsnum

record allocation =
  amount :: jsnum
  percentage :: jsnum

record AggregatedPoolData =
  poolId :: string
  poolName :: string
  address :: string
  currentPrice :: jsnum
  priceChange24h :: jsnum
  liquidity :: jsnum
  volume24h :: jsnum
  apy :: jsnum
  tvl :: jsnum
  fee :: jsnum
  riskLevel :: risk_level
  hedgeType :: hedge_type
  trend :: trend_dir
  trendStrength :: jsnum
  impermanentLossEstimate :: jsnum
  optimalRange :: "price_range option"
  allocationSuggestion :: "allocation option"

record PortfolioRecommendation =
  totalInvestment :: jsnum
  expectedDailyYield :: jsnum
  expectedDailyYieldPercentage :: jsnum
  portfolioRisk :: risk_level
  pools :: "AggregatedPoolData list"
  hedgeRatio :: jsnum
  correlationScore :: jsnum
  lastUpdated :: int

definition determineTrend :: "jsnum \<Rightarrow> trend_dir" where
  "determineTrend change =
     (if jgt change (Fin 2) then Bull
      else if jlt change (Fin (- 2)) then Bear
      else Stable)"

definition estimateImpermanentLoss :: "jsnum \<Rightarrow> risk_level \<Rightarrow> jsnum" where
  "estimateImpermanentLoss change level =
     (let baseIL = jmul (jabs change) (Fin 0.1);
          riskMultiplier =
            (case level of Low \<Rightarrow> Fin 0.5 | Medium \<Rightarrow> Fin 1 | High \<Rightarrow> Fin 1.5)
      in jneg (jmul baseIL riskMultiplier))"

text \<open>
  \<^verbatim>\<open>aggregatePoolData\<close>: it awaits \<^verbatim>\<open>calculateOptimalRange\<close>, whose exception it lets
  through.
\<close>

definition aggregatePoolData ::
    "client \<Rightarrow> string \<Rightarrow> PoolConfig \<Rightarrow> PoolData \<Rightarrow> PriceData \<Rightarrow> string + AggregatedPoolData"
  where
  "aggregatePoolData cl pid poolConfig poolData priceData =
     (let trnd = determineTrend (pr_priceChange24h priceData);
          ilEstimate =
            estimateImpermanentLoss (pr_priceChange24h priceData) (cfg_riskLevel poolConfig)
      in case calculateOptimalRange cl (cfg_address poolConfig) (Fin 10000)
                (cfg_riskLevel poolConfig) of
           Inl err \<Rightarrow> Inl err
         | Inr rng \<Rightarrow>
             Inr \<lparr>poolId = pid,
                  poolName = cfg_name poolConfig,
                  address = cfg_address poolConfig,
                  currentPrice = pr_currentPrice priceData,
                  priceChange24h = pr_priceChange24h priceData,
                  liquidity = pd_liquidity poolData,
                  volume24h = pd_volume24h poolData,
                  apy = pd_apy poolData,
                  tvl = pd_tvl poolData,
                  fee = pd_fee poolData,
                  riskLevel = cfg_riskLevel poolConfig,
                  hedgeType = cfg_hedgeType poolConfig,
                  trend = trnd,
                  trendStrength = pr_priceChange24h priceData,
                  impermanentLossEstimate = ilEstimate,
                  optimalRange =
                    Some \<lparr>rg_lower = lowerPrice rng, rg_upper = upperPrice rng\<rparr>,
                  allocationSuggestion = None\<rparr>)"

text \<open>
  \<^verbatim>\<open>getPoolsData(poolIds)\<close>: an unknown id is skipped, a pool whose data or price is
  \<^verbatim>\<open>null\<close> is skipped, and an exception inside the \<^verbatim>\<open>try\<close> is logged and the pool
  skipped. The others are pushed in the order of \<open>poolIds\<close>.
\<close>

fun getPoolsData :: "client \<Rightarrow> string list \<Rightarrow> AggregatedPoolData list" where
  "getPoolsData cl [] = []"
| "getPoolsData cl (pid # poolIds) =
     (case map_of SUPPORTED_POOLS pid of
        None \<Rightarrow> getPoolsData cl poolIds
      | Some poolConfig \<Rightarrow>
          (case (poolDataAt cl (cfg_address poolConfig),
                 priceDataAt cl (cfg_address poolConfig)) of
             (Some poolData, Some priceData) \<Rightarrow>
               (case aggregatePoolData cl pid poolConfig poolData priceData of
                  Inr aggregated \<Rightarrow> aggregated # getPoolsData cl poolIds
                | Inl err \<Rightarrow> getPoolsData cl poolIds)
           | _ \<Rightarrow> getPoolsData cl poolIds))"

text \<open>
  A \<^verbatim>\<open>Record<string, number>\<close> of weights: the keys in the order in which they were
  first assigned. \<open>put\<close> is \<^verbatim>\<open>weights[k] = v\<close>.
\<close>

type_synonym weights = "(string \<times> jsnum) list"

fun put :: "weights \<Rightarrow> string \<Rightarrow> jsnum \<Rightarrow> weights" where
  "put [] k v = [(k, v)]"
| "put ((k', v') # ws) k v = (if k' = k then (k, v) # ws else (k', v') # put ws k v)"

text \<open>\<^verbatim>\<open>adjustWeightsForRiskTolerance(pools, riskTolerance)\<close>.\<close>

definition adjustWeightsForRiskTolerance ::
    "AggregatedPoolData list \<Rightarrow> risk_level \<Rightarrow> weights" where
  "adjustWeightsForRiskTolerance ps riskTolerance =
     (let totalPools = int (length ps) in
      case riskTolerance of
        Low \<Rightarrow>
          foldl (\<lambda>ws pool.
            if hedgeType pool = Stablecoin \<or> hedgeType pool = Hedge
            then put ws (poolId pool) (jdiv (Fin 0.35) (Fin 2))
            else put ws (poolId pool) (jdiv (Fin 0.30) (Fin (of_int (totalPools - 2)))))
            [] ps
      | High \<Rightarrow>
          foldl (\<lambda>ws pool.
            if riskLevel pool = High
            then put ws (poolId pool) (jdiv (Fin 0.50) (Fin 2))
            else if hedgeType pool = Hedge
            then put ws (poolId pool) (Fin 0.15)
            else put ws (poolId pool) (jdiv (Fin 0.35) (Fin (of_int (totalPools - 3)))))
            [] ps
      | Medium \<Rightarrow>
          foldl (\<lambda>ws pool.
            put ws (poolId pool)
              (jor (map_of DEFAULT_ALLOCATION_WEIGHTS (poolId pool)) (Fin 0.20)))
            [] ps)"

text \<open>
  \<^verbatim>\<open>applyHedgeStrategy(pools, weights)\<close> in its two parts: the adjustment under the
  comment "If high volatility, increase hedge allocation", and the division under
  "Normalize weights to sum to 1".
\<close>

definition avgVolatility :: "AggregatedPoolData list \<Rightarrow> jsnum" where
  "avgVolatility ps =
     jdiv (foldl (\<lambda>sum pool. jadd sum (jabs (priceChange24h pool))) (Fin 0) ps)
          (Fin (of_nat (length ps)))"

text \<open>The body of the \<^verbatim>\<open>forEach\<close> that reduces the other pools.\<close>

definition reduceOther :: "jsnum \<Rightarrow> weights \<Rightarrow> AggregatedPoolData \<Rightarrow> weights" where
  "reduceOther reduction w pool =
     (if poolId pool \<noteq> ''EURC_USDC''
      then put w (poolId pool)
             (jmax (jsub (jor (map_of w (poolId pool)) (Fin 0)) reduction) (Fin 0.05))
      else w)"

definition hedgeAdjust :: "AggregatedPoolData list \<Rightarrow> weights \<Rightarrow> weights" where
  "hedgeAdjust ps ws =
     (if jgt (avgVolatility ps) (Fin 5) then
        (case find (\<lambda>p. poolId p = ''EURC_USDC'') ps of
           None \<Rightarrow> ws
         | Some eurcPool \<Rightarrow>
             (let eurcBoost = Fin 0.10;
                  currentEurcWeight = jor (map_of ws ''EURC_USDC'') (Fin 0);
                  ws1 = put ws ''EURC_USDC'' (jmin (jadd currentEurcWeight eurcBoost) (Fin 0.40));
                  reduction = jdiv eurcBoost (Fin (of_int (int (length ps) - 1)))
              in foldl (reduceOther reduction) ws1 ps))
      else ws)"

definition normalizeWeights :: "weights \<Rightarrow> weights" where
  "normalizeWeights ws =
     (let totalWeight = foldl (\<lambda>sum w. jadd sum w) (Fin 0) (map snd ws)
      in map (\<lambda>(k, w). (k, jdiv w totalWeight)) ws)"

definition applyHedgeStrategy :: "AggregatedPoolData list \<Rightarrow> weights \<Rightarrow> weights" where
  "applyHedgeStrategy ps ws = normalizeWeights (hedgeAdjust ps ws)"

text \<open>\<^verbatim>\<open>calculateOptimalAllocations(pools, totalInvestment, riskTolerance)\<close>.\<close>

definition calculateOptimalAllocations ::
    "AggregatedPoolData list \<Rightarrow> jsnum \<Rightarrow> risk_level \<Rightarrow> AggregatedPoolData list" where
  "calculateOptimalAllocations ps invest riskTolerance =
     (let adjustedWeights = adjustWeightsForRiskTolerance ps riskTolerance;
          finalWeights = applyHedgeStrategy ps adjustedWeights
      in map (\<lambda>pool.
           let weight = jor (map_of finalWeights (poolId pool)) (Fin 0);
               amt = jmul invest weight
           in pool\<lparr>allocationSuggestion :=
                Some \<lparr>amount = amt, percentage = jmul weight (Fin 100)\<rparr>\<rparr>) ps)"

text \<open>
  The same functions as the machine computes them: every decimal literal and every
  \<^verbatim>\<open>+\<close>, \<^verbatim>\<open>-\<close>, \<^verbatim>\<open>*\<close> and \<^verbatim>\<open>/\<close> rounded to binary64. The counts of pools are small
  integers, and \<^verbatim>\<open>Math.abs\<close>, \<^verbatim>\<open>Math.min\<close>, \<^verbatim>\<open>Math.max\<close> and the comparisons are exact.
\<close>

definition adjustWeightsForRiskTolerance_b64 ::
    "AggregatedPoolData list \<Rightarrow> risk_level \<Rightarrow> weights" where
  "adjustWeightsForRiskTolerance_b64 ps riskTolerance =
     (let totalPools = int (length ps) in
      case riskTolerance of
        Low \<Rightarrow>
          foldl (\<lambda>ws pool.
            if hedgeType pool = Stablecoin \<or> hedgeType pool = Hedge
            then put ws (poolId pool) (rdiv (rnd (Fin 0.35)) (Fin 2))
            else put ws (poolId pool)
                   (rdiv (rnd (Fin 0.30)) (Fin (of_int (totalPools - 2)))))
            [] ps
      | High \<Rightarrow>
          foldl (\<lambda>ws pool.
            if riskLevel pool = High
            then put ws (poolId pool) (rdiv (rnd (Fin 0.50)) (Fin 2))
            else if hedgeType pool = Hedge
            then put ws (poolId pool) (rnd (Fin 0.15))
            else put ws (poolId pool)
                   (rdiv (rnd (Fin 0.35)) (Fin (of_int (totalPools - 3)))))
            [] ps
      | Medium \<Rightarrow>
          foldl (\<lambda>ws pool.
            put ws (poolId pool)
              (jor (map_option rnd (map_of DEFAULT_ALLOCATION_WEIGHTS (poolId pool)))
                 (rnd (Fin 0.20))))
            [] ps)"

definition avgVolatility_b64 :: "AggregatedPoolData list \<Rightarrow> jsnum" where
  "avgVolatility_b64 ps =
     rdiv (foldl (\<lambda>sum pool. radd sum (jabs (priceChange24h pool))) (Fin 0) ps)
          (Fin (of_nat (length ps)))"

definition reduceOther_b64 :: "jsnum \<Rightarrow> weights \<Rightarrow> AggregatedPoolData \<Rightarrow> weights" where
  "reduceOther_b64 reduction w pool =
     (if poolId pool \<noteq> ''EURC_USDC''
      then put w (poolId pool)
             (jmax (rsub (jor (map_of w (poolId pool)) (Fin 0)) reduction) (rnd (Fin 0.05)))
      else w)"

definition hedgeAdjust_b64 :: "AggregatedPoolData list \<Rightarrow> weights \<Rightarrow> weights" where
  "hedgeAdjust_b64 ps ws =
     (if jgt (avgVolatility_b64 ps) (Fin 5) then
        (case find (\<lambda>p. poolId p = ''EURC_USDC'') ps of
           None \<Rightarrow> ws
         | Some eurcPool \<Rightarrow>
             (let eurcBoost = rnd (Fin 0.10);
                  currentEurcWeight = jor (map_of ws ''EURC_USDC'') (Fin 0);
                  ws1 = put ws ''EURC_USDC''
                          (jmin (radd currentEurcWeight eurcBoost) (rnd (Fin 0.40)));
                  reduction = rdiv eurcBoost (Fin (of_int (int (length ps) - 1)))
              in foldl (reduceOther_b64 reduction) ws1 ps))
      else ws)"

definition normalizeWeights_b64 :: "weights \<Rightarrow> weights" where
  "normalizeWeights_b64 ws =
     (let totalWeight = foldl (\<lambda>sum w. radd sum w) (Fin 0) (map snd ws)
      in map (\<lambda>(k, w). (k, rdiv w totalWeight)) ws)"

definition applyHedgeStrategy_b64 :: "AggregatedPoolData list \<Rightarrow> weights \<Rightarrow> weights" where
  "applyHedgeStrategy_b64 ps ws = normalizeWeights_b64 (hedgeAdjust_b64 ps ws)"

definition calculateOptimalAllocations_b64 ::
    "AggregatedPoolData list \<Rightarrow> jsnum \<Rightarrow> risk_level \<Rightarrow> AggregatedPoolData list" where
  "calculateOptimalAllocations_b64 ps invest riskTolerance =
     (let adjustedWeights = adjustWeightsForRiskTolerance_b64 ps riskTolerance;
          finalWeights = applyHedgeStrategy_b64 ps adjustedWeights
      in map (\<lambda>pool.
           let weight = jor (map_of finalWeights (poolId pool)) (Fin 0);
               amt = rmul invest weight
           in pool\<lparr>allocationSuggestion :=
                Some \<lparr>amount = amt, percentage = rmul weight (Fin 100)\<rparr>\<rparr>) ps)"

text \<open>\<^verbatim>\<open>pool.allocationSuggestion?.amount || 0\<close> and the same for the percentage.\<close>

definition amountOr0 :: "AggregatedPoolData \<Rightarrow> jsnum" where
  "amountOr0 pool = jor (map_option amount (allocationSuggestion pool)) (Fin 0)"

definition percentageOr0 :: "AggregatedPoolData \<Rightarrow> jsnum" where
  "percentageOr0 pool = jor (map_option percentage (allocationSuggestion pool)) (Fin 0)"

definition calculateExpectedDailyYield :: "AggregatedPoolData list \<Rightarrow> jsnum" where
  "calculateExpectedDailyYield ps =
     foldl (\<lambda>acc pool.
       let alloc = amountOr0 pool;
           dailyYield = jdiv (jdiv (jmul alloc (apy pool)) (Fin 365)) (Fin 100)
       in jadd acc dailyYield) (Fin 0) ps"

definition assessPortfolioRisk :: "AggregatedPoolData list \<Rightarrow> risk_level" where
  "assessPortfolioRisk ps =
     (let weightedRisk =
            foldl (\<lambda>acc pool.
              let weight = jdiv (percentageOr0 pool) (Fin 100);
                  riskScore =
                    (case riskLevel pool of Low \<Rightarrow> Fin 1 | Medium \<Rightarrow> Fin 2 | High \<Rightarrow> Fin 3)
              in jadd acc (jmul weight riskScore)) (Fin 0) ps
      in if jlt weightedRisk (Fin 1.5) then Low
         else if jlt weightedRisk (Fin 2.5) then Medium
         else High)"

definition calculateHedgeRatio :: "AggregatedPoolData list \<Rightarrow> jsnum" where
  "calculateHedgeRatio ps =
     foldl (\<lambda>sum p. jadd sum (percentageOr0 p)) (Fin 0)
       (filter (\<lambda>p. hedgeType p = Hedge \<or> hedgeType p = Stablecoin) ps)"

text \<open>
  \<^verbatim>\<open>calculateCorrelationScore\<close>: the two nested loops over \<open>i < j\<close>, carrying
  \<^verbatim>\<open>totalCorrelation\<close> and \<^verbatim>\<open>pairCount\<close>.
\<close>

definition correlation :: "string \<Rightarrow> string \<Rightarrow> jsnum" where
  "correlation a b =
     jor (case map_of POOL_CORRELATIONS a of None \<Rightarrow> None | Some row \<Rightarrow> map_of row b)
         (Fin 0)"

fun correlationLoop :: "AggregatedPoolData list \<Rightarrow> jsnum \<times> nat \<Rightarrow> jsnum \<times> nat" where
  "correlationLoop [] acc = acc"
| "correlationLoop (p # ps) acc =
     correlationLoop ps
       (foldl (\<lambda>(totalCorrelation, pairCount) q.
          (jadd totalCorrelation (jabs (correlation (poolId p) (poolId q))),
           Suc pairCount)) acc ps)"

definition calculateCorrelationScore :: "AggregatedPoolData list \<Rightarrow> jsnum" where
  "calculateCorrelationScore ps =
     (let (totalCorrelation, pairCount) = correlationLoop ps (Fin 0, 0)
      in if pairCount > 0 then jdiv totalCorrelation (Fin (of_nat pairCount)) else Fin 0)"

text \<open>
  \<^verbatim>\<open>generateRecommendations\<close>. The promise it returns is a sum, \<open>Inl\<close> for a rejection
  with its message; \<open>now\<close> is the reading of \<^verbatim>\<open>new Date()\<close>.
\<close>

definition generateRecommendations ::
    "client \<Rightarrow> int \<Rightarrow> jsnum \<Rightarrow> jsnum \<Rightarrow> string list \<Rightarrow> risk_level
       \<Rightarrow> string + PortfolioRecommendation" where
  "generateRecommendations cl now invest expectedDailyFeesPercent selectedPoolIds riskTolerance =
     (let poolsData = getPoolsData cl selectedPoolIds;
          allocatedPools = calculateOptimalAllocations poolsData invest riskTolerance;
          yield = calculateExpectedDailyYield allocatedPools;
          risk = assessPortfolioRisk allocatedPools;
          ratio = calculateHedgeRatio allocatedPools;
          score = calculateCorrelationScore allocatedPools
      in Inr \<lparr>totalInvestment = invest,
              expectedDailyYield = yield,
              expectedDailyYieldPercentage = jmul (jdiv yield invest) (Fin 100),
              portfolioRisk = risk,
              pools = allocatedPools,
              hedgeRatio = ratio,
              correlationScore = score,
              lastUpdated = now\<rparr>)"

text \<open>
  The guard of the hook's \<^verbatim>\<open>fetchRecommendations\<close>, the only caller:
  \<^verbatim>\<open>!totalInvestment || !selectedPoolIds.length\<close> sets the error
  \<^verbatim>\<open>'Invalid configuration'\<close> and makes no call.
\<close>

definition fetchRecommendations ::
    "client \<Rightarrow> int \<Rightarrow> jsnum \<Rightarrow> jsnum \<Rightarrow> string list \<Rightarrow> risk_level
       \<Rightarrow> string + PortfolioRecommendation" where
  "fetchRecommendations cl now invest expectedDailyFeesPercent selectedPoolIds riskTolerance =
     (if invest = Fin 0 \<or> invest = NaN \<or> selectedPoolIds = []
      then Inl ''Invalid configuration''
      else generateRecommendations cl now invest expectedDailyFeesPercent selectedPoolIds
             riskTolerance)"

text \<open>
  A client in front of a price feed that reports the 24h change \<open>change\<close> for every
  pool, at the pool's base price; the pool data are those of the mock table. (The mock
  feed above draws its change between -5 and 5.)
\<close>

definition feedClient :: "jsnum \<Rightarrow> client" where
  "feedClient change =
     \<lparr>poolDataAt = (\<lambda>a. Some (fetchPoolDataFromAPI a)),
      priceDataAt = (\<lambda>a.
        Some \<lparr>pr_poolAddress = a,
              pr_currentPrice = pd_price (fetchPoolDataFromAPI a),
              pr_priceChange24h = change,
              pr_priceChange7d = jmul change (Fin 2),
              pr_high24h = jmul (pd_price (fetchPoolDataFromAPI a)) (Fin 1.05),
              pr_low24h = jmul (pd_price (fetchPoolDataFromAPI a)) (Fin 0.95),
              pr_timestamp = 0\<rparr>)\<rparr>"

section \<open>Properties of the closed-form loss\<close>

lemma two_sqrt_le: "0 < r \<Longrightarrow> 2 * sqrt r \<le> 1 + r"
proof -
  assume r: "0 < r"
  have "0 \<le> (sqrt r - 1)\<^sup>2" by simp
  also have "(sqrt r - 1)\<^sup>2 = (sqrt r)\<^sup>2 - 2 * sqrt r + 1"
    by (simp add: power2_diff)
  also have "(sqrt r)\<^sup>2 = r" using r by simp
  finally show ?thesis by simp
qed

lemma loss_nonpositive: "0 < r \<Longrightarrow> (2 * sqrt r / (1 + r) - 1) * 100 \<le> 0"
proof -
  assume r: "0 < r"
  then have "2 * sqrt r / (1 + r) \<le> 1"
    using two_sqrt_le [OF r] by (simp add: divide_le_eq)
  then show ?thesis by simp
qed

lemma overflow_threshold_gt: "1 < overflow_threshold"
  by (simp add: overflow_threshold_def)

lemma underflow_threshold_pos: "0 < underflow_threshold"
  by (simp add: underflow_threshold_def)

lemma underflow_threshold_lt: "underflow_threshold < 1"
  by (simp add: underflow_threshold_def)

lemma fit_in_range:
  "underflow_threshold < q \<Longrightarrow> q < overflow_threshold \<Longrightarrow> fit (Fin q) = Fin q"
  using overflow_threshold_gt underflow_threshold_pos by simp

lemma fit_underflow: "\<bar>q\<bar> \<le> underflow_threshold \<Longrightarrow> fit (Fin q) = Fin 0"
proof -
  assume q: "\<bar>q\<bar> \<le> underflow_threshold"
  have "\<not> overflow_threshold \<le> q" "\<not> q \<le> - overflow_threshold"
    using q overflow_threshold_gt underflow_threshold_lt by linarith+
  with q show ?thesis by simp
qed

lemma fit_negative:
  "q < - underflow_threshold \<Longrightarrow> fit (Fin q) = NInf \<or> (fit (Fin q) = Fin q \<and> q < 0)"
  using overflow_threshold_gt underflow_threshold_pos by simp

lemma fit_overflow: "overflow_threshold \<le> q \<Longrightarrow> fit (Fin q) = PInf"
  by simp

lemma loss_finite:
  "i \<noteq> 0 \<Longrightarrow> underflow_threshold < c / i \<Longrightarrow> c / i < overflow_threshold \<Longrightarrow>
   calculateImpermanentLoss (Fin i) (Fin c) = Fin ((2 * sqrt (c / i) / (1 + c / i) - 1) * 100)"
proof -
  assume i: "i \<noteq> 0" and l: "underflow_threshold < c / i" and u: "c / i < overflow_threshold"
  have p: "\<not> c / i < 0" using l underflow_threshold_pos by linarith
  show ?thesis
    using i p
    by (simp add: calculateImpermanentLoss_def jsub_def Let_def fit_in_range [OF l u]
        del: fit.simps)
qed

lemma loss_underflow:
  "i \<noteq> 0 \<Longrightarrow> \<bar>c / i\<bar> \<le> underflow_threshold \<Longrightarrow>
   calculateImpermanentLoss (Fin i) (Fin c) = Fin (- 100)"
  by (simp add: calculateImpermanentLoss_def jsub_def Let_def fit_underflow del: fit.simps)

lemma loss_negative_ratio:
  "i \<noteq> 0 \<Longrightarrow> c / i < - underflow_threshold \<Longrightarrow>
   calculateImpermanentLoss (Fin i) (Fin c) = NaN"
proof -
  assume i: "i \<noteq> 0" and q: "c / i < - underflow_threshold"
  from fit_negative [OF q] show ?thesis
  proof
    assume "fit (Fin (c / i)) = NInf"
    then show ?thesis using i
      by (simp add: calculateImpermanentLoss_def jsub_def Let_def del: fit.simps)
  next
    assume "fit (Fin (c / i)) = Fin (c / i) \<and> c / i < 0"
    then show ?thesis using i
      by (simp add: calculateImpermanentLoss_def jsub_def Let_def del: fit.simps)
  qed
qed

lemma loss_overflow:
  "i \<noteq> 0 \<Longrightarrow> overflow_threshold \<le> c / i \<Longrightarrow>
   calculateImpermanentLoss (Fin i) (Fin c) = NaN"
  by (simp add: calculateImpermanentLoss_def jsub_def Let_def fit_overflow inf_of_sign_def
      del: fit.simps)

lemma loss_zero_initial: "calculateImpermanentLoss (Fin 0) (Fin c) = NaN"
  by (simp add: calculateImpermanentLoss_def jsub_def Let_def inf_of_sign_def)

lemma loss_unchanged: "x \<noteq> 0 \<Longrightarrow> calculateImpermanentLoss (Fin x) (Fin x) = Fin 0"
  using loss_finite [of x x] underflow_threshold_lt overflow_threshold_gt by simp

lemma inverse_ratio_aux:
  "0 < s \<Longrightarrow> 2 * (1 / s) / (1 + 1 / (s * s)) = 2 * s / (1 + s * s)" for s :: real
proof -
  assume s: "0 < s"
  have p: "0 < 1 + s * s" using s by (simp add: add_pos_pos)
  show ?thesis using s p by (simp add: field_simps)
qed

lemma inverse_ratio: "0 < r \<Longrightarrow> 2 * sqrt (1 / r) / (1 + 1 / r) = 2 * sqrt r / (1 + r)"
proof -
  assume r: "0 < r"
  have s: "sqrt r * sqrt r = r" using r by simp
  have sp: "0 < sqrt r" using r by simp
  have "2 * sqrt (1 / r) / (1 + 1 / r) = 2 * (1 / sqrt r) / (1 + 1 / (sqrt r * sqrt r))"
    by (simp only: s real_sqrt_divide real_sqrt_one)
  also have "\<dots> = 2 * sqrt r / (1 + sqrt r * sqrt r)" by (rule inverse_ratio_aux [OF sp])
  finally show ?thesis by (simp only: s)
qed

text \<open>
  C7, as the code has it. For finite operands \<open>i\<close> (initial) and \<open>c\<close> (current) with
  exact ratio \<open>r = c / i\<close>: when \<open>r\<close> is positive and within the range of binary64 the
  function returns \<open>(2 \<surd>r / (1 + r) - 1) \<sqdot> 100\<close>, and that number is at most 0: the loss
  comes back with its sign, not as a magnitude. Nothing is rejected. A ratio that
  rounds to zero, from either side, gives -100; a negative ratio beyond that gives NaN;
  a ratio that overflows gives NaN; and an initial ratio of 0 gives NaN.
\<close>

theorem calculateImpermanentLoss_signed:
  "(i \<noteq> 0 \<and> underflow_threshold < c / i \<and> c / i < overflow_threshold \<longrightarrow>
      calculateImpermanentLoss (Fin i) (Fin c) =
        Fin ((2 * sqrt (c / i) / (1 + c / i) - 1) * 100) \<and>
      (2 * sqrt (c / i) / (1 + c / i) - 1) * 100 \<le> 0) \<and>
   (i \<noteq> 0 \<and> \<bar>c / i\<bar> \<le> underflow_threshold \<longrightarrow>
      calculateImpermanentLoss (Fin i) (Fin c) = Fin (- 100)) \<and>
   (i \<noteq> 0 \<and> c / i < - underflow_threshold \<longrightarrow>
      calculateImpermanentLoss (Fin i) (Fin c) = NaN) \<and>
   (i \<noteq> 0 \<and> overflow_threshold \<le> c / i \<longrightarrow>
      calculateImpermanentLoss (Fin i) (Fin c) = NaN) \<and>
   calculateImpermanentLoss (Fin 0) (Fin c) = NaN"
proof (intro conjI impI)
  assume h: "i \<noteq> 0 \<and> underflow_threshold < c / i \<and> c / i < overflow_threshold"
  then show "calculateImpermanentLoss (Fin i) (Fin c) =
        Fin ((2 * sqrt (c / i) / (1 + c / i) - 1) * 100)"
    by (simp add: loss_finite)
  from h have "0 < c / i" using underflow_threshold_pos by linarith
  then show "(2 * sqrt (c / i) / (1 + c / i) - 1) * 100 \<le> 0"
    by (rule loss_nonpositive)
next
  assume "i \<noteq> 0 \<and> \<bar>c / i\<bar> \<le> underflow_threshold"
  then show "calculateImpermanentLoss (Fin i) (Fin c) = Fin (- 100)"
    by (simp add: loss_underflow)
next
  assume "i \<noteq> 0 \<and> c / i < - underflow_threshold"
  then show "calculateImpermanentLoss (Fin i) (Fin c) = NaN"
    by (simp add: loss_negative_ratio)
next
  assume "i \<noteq> 0 \<and> overflow_threshold \<le> c / i"
  then show "calculateImpermanentLoss (Fin i) (Fin c) = NaN"
    by (simp add: loss_overflow)
next
  show "calculateImpermanentLoss (Fin 0) (Fin c) = NaN" by (rule loss_zero_initial)
qed

theorem calculateImpermanentLoss_signed_witness:
  "calculateImpermanentLoss (Fin 1) (Fin 4) = Fin (- 20) \<and>
   calculateImpermanentLoss (Fin 2) (Fin 0) = Fin (- 100) \<and>
   calculateImpermanentLoss (Fin 2) (Fin (- 2)) = NaN \<and>
   calculateImpermanentLoss (Fin (1 / 10 ^ 200)) (Fin (10 ^ 200)) = NaN \<and>
   calculateImpermanentLoss (Fin (10 ^ 200)) (Fin (- (1 / 10 ^ 200))) = Fin (- 100)"
proof -
  have a: "calculateImpermanentLoss (Fin 1) (Fin 4) = Fin (- 20)"
    using calculateImpermanentLoss_signed [of 1 4, THEN conjunct1]
    by (simp add: overflow_threshold_def underflow_threshold_def)
  have b: "calculateImpermanentLoss (Fin 2) (Fin 0) = Fin (- 100)"
    using calculateImpermanentLoss_signed [of 2 0, THEN conjunct2, THEN conjunct1]
    by (simp add: underflow_threshold_def)
  have c: "calculateImpermanentLoss (Fin 2) (Fin (- 2)) = NaN"
    using calculateImpermanentLoss_signed [of 2 "- 2", THEN conjunct2, THEN conjunct2,
        THEN conjunct1]
    by (simp add: underflow_threshold_def)
  have d: "calculateImpermanentLoss (Fin (1 / 10 ^ 200)) (Fin (10 ^ 200)) = NaN"
    using calculateImpermanentLoss_signed [of "1 / 10 ^ 200" "10 ^ 200", THEN conjunct2,
        THEN conjunct2, THEN conjunct2, THEN conjunct1]
    by (simp add: overflow_threshold_def)
  have e: "calculateImpermanentLoss (Fin (10 ^ 200)) (Fin (- (1 / 10 ^ 200))) = Fin (- 100)"
    using calculateImpermanentLoss_signed [of "10 ^ 200" "- (1 / 10 ^ 200)",
        THEN conjunct2, THEN conjunct1]
    by (simp add: underflow_threshold_def)
  show ?thesis by (intro conjI a b c d e)
qed

text \<open>
  At ratio 4 the claimed magnitude would be 20; the function returns -20, below zero.
  At ratio 0, where the claim has a rejection, it returns -100.
\<close>

theorem calculateImpermanentLoss_magnitude_counterexample:
  "calculateImpermanentLoss (Fin 1) (Fin 4) \<noteq> Fin \<bar>(2 * sqrt 4 / (1 + 4) - 1) * 100\<bar> \<and>
   jlt (calculateImpermanentLoss (Fin 1) (Fin 4)) (Fin 0) \<and>
   calculateImpermanentLoss (Fin 1) (Fin 0) = Fin (- 100)"
  by (simp add: calculateImpermanentLoss_def jsub_def jlt_def Let_def
      overflow_threshold_def underflow_threshold_def)

text \<open>
  C8. With the same finite number, not zero, as the initial and as the current ratio,
  the quotient is exactly 1 and the loss is exactly 0. The symmetry is one of the closed
  formula, over the reals: its value at \<open>1 / r\<close> is its value at \<open>r\<close>.
\<close>

theorem loss_unchanged_and_formula_symmetry:
  "(x \<noteq> 0 \<longrightarrow> calculateImpermanentLoss (Fin x) (Fin x) = Fin 0) \<and>
   (0 < r \<longrightarrow>
      (2 * sqrt (1 / r) / (1 + 1 / r) - 1) * 100 = (2 * sqrt r / (1 + r) - 1) * 100)"
proof (intro conjI impI)
  assume "x \<noteq> 0"
  then show "calculateImpermanentLoss (Fin x) (Fin x) = Fin 0" by (rule loss_unchanged)
next
  assume "0 < r"
  then show "(2 * sqrt (1 / r) / (1 + 1 / r) - 1) * 100 = (2 * sqrt r / (1 + r) - 1) * 100"
    by (simp only: inverse_ratio)
qed

theorem loss_unchanged_and_formula_symmetry_witness:
  "calculateImpermanentLoss (Fin 3) (Fin 3) = Fin 0 \<and>
   (2 * sqrt (1 / 4) / (1 + 1 / 4) - 1) * 100 = (2 * sqrt 4 / (1 + 4) - 1) * 100"
  using loss_unchanged_and_formula_symmetry [of 3 4] by simp

text \<open>
  Against the symmetry of C8 as a property of the function, both ratios positive: from
  \<open>10\<^sup>-\<^sup>2\<^sup>0\<^sup>0\<close> to \<open>10\<^sup>2\<^sup>0\<^sup>0\<close> the quotient overflows and the result is NaN; back from
  \<open>10\<^sup>2\<^sup>0\<^sup>0\<close> to \<open>10\<^sup>-\<^sup>2\<^sup>0\<^sup>0\<close> it underflows to zero and the result is -100.
\<close>

theorem calculateImpermanentLoss_symmetry_counterexample:
  "calculateImpermanentLoss (Fin (1 / 10 ^ 200)) (Fin (10 ^ 200)) = NaN \<and>
   calculateImpermanentLoss (Fin (10 ^ 200)) (Fin (1 / 10 ^ 200)) = Fin (- 100)"
  by (simp add: calculateImpermanentLoss_def jsub_def Let_def inf_of_sign_def
      overflow_threshold_def underflow_threshold_def)

section \<open>Properties of the price stream\<close>



lemma subscribePool_keeps:
  "timers (subscribePool rpc pid s) = timers s"
  "emitted (subscribePool rpc pid s) = emitted s"
  "isConnected (subscribePool rpc pid s) = isConnected s"
  "reconnectAttempts (subscribePool rpc pid s) = reconnectAttempts s"
  by (simp_all add: subscribePool_def split: option.splits)

lemma subscribeLoop_keeps:
  "timers (fold (subscribePool rpc) pids s) = timers s"
  "emitted (fold (subscribePool rpc) pids s) = emitted s"
  "isConnected (fold (subscribePool rpc) pids s) = isConnected s"
  "reconnectAttempts (fold (subscribePool rpc) pids s) = reconnectAttempts s"
  by (induction pids arbitrary: s) (simp_all add: subscribePool_keeps)

lemma connect_zero:
  "connect 0 rpc s = (if isConnected s then s else handleConnectionError s)"
  by (simp add: connect.simps)

lemma connect_Suc:
  "connect (Suc n) rpc s =
     (if isConnected s then s
      else emit EvConnected
             ((startPriceUpdateSimulation
                 (fold (subscribePool rpc) (map fst SUPPORTED_POOLS) (connect n rpc s)))
              \<lparr>isConnected := True, reconnectAttempts := 0\<rparr>))"
  by (simp add: connect.simps [of "Suc n"] subscribeToPoolAccounts.simps
      subscribeToPools.simps Let_def)


lemma connect_completes:
  "\<not> isConnected s \<Longrightarrow>
     isConnected (connect (Suc n) rpc s) \<and> reconnectAttempts (connect (Suc n) rpc s) = 0"
  by (simp add: connect_Suc emit_def startPriceUpdateSimulation_def)

text \<open>
  What a \<^verbatim>\<open>connect()\<close> on a disconnected service leaves behind: the innermost call has
  run \<^verbatim>\<open>handleConnectionError\<close> once, and each of the \<open>room\<close> enclosing calls has emitted
  \<^verbatim>\<open>connected\<close>.
\<close>

lemma connect_reenters:
  "\<not> isConnected s \<Longrightarrow>
     timers (connect room rpc s) = timers (handleConnectionError s) \<and>
     emitted (connect room rpc s) =
       emitted (handleConnectionError s) @ replicate room EvConnected"
proof (induction room)
  case 0
  then show ?case by (simp add: connect_zero)
next
  case (Suc n)
  then show ?case
    by (simp add: connect_Suc emit_def startPriceUpdateSimulation_def subscribeLoop_keeps
        replicate_append_same)
qed

text \<open>
  From the initial state an explicit \<^verbatim>\<open>connect()\<close> ends connected, with the counter at 0,
  a retry pending after 2000 ms (which will find the service connected and return), and
  no error event.
\<close>

lemma connect_initial:
  "isConnected (connect (Suc n) rpc initial_ws) \<and>
   reconnectAttempts (connect (Suc n) rpc initial_ws) = 0 \<and>
   timers (connect (Suc n) rpc initial_ws) = [2000] \<and>
   emitted (connect (Suc n) rpc initial_ws) = replicate (Suc n) EvConnected"
proof -
  have d: "\<not> isConnected initial_ws" by (simp add: initial_ws_def)
  have h: "handleConnectionError initial_ws = initial_ws\<lparr>reconnectAttempts := 1, timers := [2000]\<rparr>"
    by (simp add: handleConnectionError_def maxReconnectAttempts_def Let_def initial_ws_def)
  have e: "emitted initial_ws = []" by (simp add: initial_ws_def)
  show ?thesis
    using connect_completes [OF d, of n rpc] connect_reenters [OF d, of "Suc n" rpc]
    by (simp add: h e)
qed




lemma tickPool_quiet:
  assumes "0 \<le> rnd_change d" "rnd_change d < 1"
  shows "\<exists>new. emitted (tickPool d entry s) = emitted s @ new \<and>
           (\<forall>e\<in>set new. (\<forall>a. e \<noteq> EvPriceAlert a) \<and>
              (\<forall>u. e = EvPriceUpdate u \<longrightarrow> \<not> jgt (jabs (pu_change u)) (Fin 5)))"
proof -
  have c: "jmul (jmul (jsub (Fin (rnd_change d)) (Fin (1 / 2))) (Fin (1 / 100))) (Fin 100)
           = Fin (rnd_change d - 1 / 2)"
    by (simp add: jsub_def)
  have "\<bar>rnd_change d - 1 / 2\<bar> \<le> 1 / 2" using assms by (simp add: abs_if)
  then have q: "\<not> 5 < \<bar>rnd_change d - 1 / 2\<bar>" by linarith
  show ?thesis
    using q by (auto simp add: tickPool_def Let_def emit_def c simp del: jmul.simps)
qed

lemma fold_tickPool_quiet:
  assumes "\<forall>pid. 0 \<le> rnd_change (ds pid) \<and> rnd_change (ds pid) < 1"
  shows "\<exists>new. emitted (fold (\<lambda>entry. tickPool (ds (fst entry)) entry) entries s)
             = emitted s @ new \<and>
           (\<forall>e\<in>set new. (\<forall>a. e \<noteq> EvPriceAlert a) \<and>
              (\<forall>u. e = EvPriceUpdate u \<longrightarrow> \<not> jgt (jabs (pu_change u)) (Fin 5)))"
proof (induction entries arbitrary: s)
  case Nil
  show ?case by simp
next
  case (Cons entry entries)
  let ?s1 = "tickPool (ds (fst entry)) entry s"
  from assms have r: "0 \<le> rnd_change (ds (fst entry))" "rnd_change (ds (fst entry)) < 1"
    by auto
  from tickPool_quiet [OF r, of entry s] obtain n1 where
    n1: "emitted ?s1 = emitted s @ n1"
      "\<forall>e\<in>set n1. (\<forall>a. e \<noteq> EvPriceAlert a) \<and>
          (\<forall>u. e = EvPriceUpdate u \<longrightarrow> \<not> jgt (jabs (pu_change u)) (Fin 5))"
    by blast
  from Cons.IH [of ?s1] obtain n2 where
    n2: "emitted (fold (\<lambda>entry. tickPool (ds (fst entry)) entry) entries ?s1)
           = emitted ?s1 @ n2"
      "\<forall>e\<in>set n2. (\<forall>a. e \<noteq> EvPriceAlert a) \<and>
          (\<forall>u. e = EvPriceUpdate u \<longrightarrow> \<not> jgt (jabs (pu_change u)) (Fin 5))"
    by blast
  show ?case
  proof (intro exI conjI)
    show "emitted (fold (\<lambda>entry. tickPool (ds (fst entry)) entry) (entry # entries) s)
            = emitted s @ (n1 @ n2)"
      using n1(1) n2(1) by simp
    show "\<forall>e\<in>set (n1 @ n2). (\<forall>a. e \<noteq> EvPriceAlert a) \<and>
          (\<forall>u. e = EvPriceUpdate u \<longrightarrow> \<not> jgt (jabs (pu_change u)) (Fin 5))"
      using n1(2) n2(2) by auto
  qed
qed

lemma tickPool_no_alert:
  "\<exists>new. emitted (tickPool d entry s) = emitted s @ new \<and>
         (\<forall>e\<in>set new. \<forall>a. e \<noteq> EvPriceAlert a)"
  by (auto simp add: tickPool_def Let_def emit_def)

text \<open>
  Whatever the draws, a run of the tick callback emits price and volume updates only:
  no path leads from it to \<^verbatim>\<open>checkPriceAlert\<close>, which has no call site.
\<close>

lemma priceTick_no_alert:
  "\<exists>new. emitted (priceTick ds s) = emitted s @ new \<and>
         (\<forall>e\<in>set new. \<forall>a. e \<noteq> EvPriceAlert a)"
proof -
  have "\<exists>new. emitted (fold (\<lambda>entry. tickPool (ds (fst entry)) entry) entries s)
             = emitted s @ new \<and> (\<forall>e\<in>set new. \<forall>a. e \<noteq> EvPriceAlert a)"
    for entries
  proof (induction entries arbitrary: s)
    case Nil
    show ?case by simp
  next
    case (Cons entry entries)
    let ?s1 = "tickPool (ds (fst entry)) entry s"
    from tickPool_no_alert [of "ds (fst entry)" entry s] obtain n1 where
      n1: "emitted ?s1 = emitted s @ n1" "\<forall>e\<in>set n1. \<forall>a. e \<noteq> EvPriceAlert a"
      by blast
    from Cons.IH [of ?s1] obtain n2 where
      n2: "emitted (fold (\<lambda>entry. tickPool (ds (fst entry)) entry) entries ?s1)
             = emitted ?s1 @ n2"
        "\<forall>e\<in>set n2. \<forall>a. e \<noteq> EvPriceAlert a"
      by blast
    show ?case
    proof (intro exI conjI)
      show "emitted (fold (\<lambda>entry. tickPool (ds (fst entry)) entry) (entry # entries) s)
              = emitted s @ (n1 @ n2)"
        using n1(1) n2(1) by simp
      show "\<forall>e\<in>set (n1 @ n2). \<forall>a. e \<noteq> EvPriceAlert a"
        using n1(2) n2(2) by auto
    qed
  qed
  then show ?thesis unfolding priceTick_def .
qed


section \<open>Properties of the pool cache\<close>

lemma getPoolData_fresh:
  "storage st (CACHE_PREFIX @ ''pool_'' @ a) = Some (d, ts) \<Longrightarrow> now - ts \<le> 30000 \<Longrightarrow>
   getPoolData st a now later answer = (Some d, st)"
  by (simp add: getPoolData_def getFromCache_def cacheEnabled_def CACHE_TTL_def)

lemma getPoolData_stale_found:
  "storage st (CACHE_PREFIX @ ''pool_'' @ a) = Some (d, ts) \<Longrightarrow> 30000 < now - ts \<Longrightarrow>
   getPoolData st a now later RpcAccount =
     (Some (fetchPoolDataFromAPI a),
      st\<lparr>storage :=
           (storage st)(CACHE_PREFIX @ ''pool_'' @ a \<mapsto> (fetchPoolDataFromAPI a, later)),
         rpcLog := rpcLog st @ [a]\<rparr>)"
  by (simp add: getPoolData_def getFromCache_def saveToCache_def cacheEnabled_def
      CACHE_TTL_def Let_def)

lemma getPoolData_stale_failed:
  "storage st (CACHE_PREFIX @ ''pool_'' @ a) = Some (d, ts) \<Longrightarrow> 30000 < now - ts \<Longrightarrow>
   answer \<noteq> RpcAccount \<Longrightarrow>
   getPoolData st a now later answer =
     (None, st\<lparr>storage := (storage st)(CACHE_PREFIX @ ''pool_'' @ a := None),
         rpcLog := rpcLog st @ [a]\<rparr>)"
  by (cases answer)
    (simp_all add: getPoolData_def getFromCache_def cacheEnabled_def CACHE_TTL_def Let_def)

lemma getPoolData_miss_found:
  "storage st (CACHE_PREFIX @ ''pool_'' @ a) = None \<Longrightarrow>
   getPoolData st a now later RpcAccount =
     (Some (fetchPoolDataFromAPI a),
      st\<lparr>storage :=
           (storage st)(CACHE_PREFIX @ ''pool_'' @ a \<mapsto> (fetchPoolDataFromAPI a, later)),
         rpcLog := rpcLog st @ [a]\<rparr>)"
  by (simp add: getPoolData_def getFromCache_def saveToCache_def cacheEnabled_def
      CACHE_TTL_def Let_def)

text \<open>
  C9. Let the cache hold the record \<open>d\<close> for the pool, stored at time \<open>ts\<close>. Read at a
  time \<open>now\<close> with \<open>now - ts\<close> at most 30000 ms, \<^verbatim>\<open>getPoolData\<close> returns \<open>d\<close> and
  leaves the whole state as it was: the storage is untouched and the RPC node is not
  asked. Read with \<open>now - ts\<close> above 30000 ms, the node is asked once, whatever it
  answers; when it finds the account the fresh record is returned and stored under the
  key with the time of saving, and when it does not, the result is \<^verbatim>\<open>null\<close> and the
  old entry is gone. And two calls in a row: when the first finds nothing in the cache
  and fetches, a second call at most 30000 ms after the record was saved returns the
  same record, asks the node no second time and changes nothing.
\<close>

theorem pool_cache_freshness:
  "(storage st (CACHE_PREFIX @ ''pool_'' @ a) = Some (d, ts) \<longrightarrow>
     (now - ts \<le> 30000 \<longrightarrow> getPoolData st a now later answer = (Some d, st)) \<and>
     (30000 < now - ts \<longrightarrow>
        rpcLog (snd (getPoolData st a now later answer)) = rpcLog st @ [a] \<and>
        getPoolData st a now later RpcAccount =
          (Some (fetchPoolDataFromAPI a),
           st\<lparr>storage :=
                (storage st)(CACHE_PREFIX @ ''pool_'' @ a \<mapsto> (fetchPoolDataFromAPI a, later)),
              rpcLog := rpcLog st @ [a]\<rparr>) \<and>
        (answer \<noteq> RpcAccount \<longrightarrow>
           getPoolData st a now later answer =
             (None, st\<lparr>storage := (storage st)(CACHE_PREFIX @ ''pool_'' @ a := None),
                rpcLog := rpcLog st @ [a]\<rparr>)))) \<and>
   (storage st (CACHE_PREFIX @ ''pool_'' @ a) = None \<and> again - later \<le> 30000 \<longrightarrow>
      (\<exists>st1. getPoolData st a now later RpcAccount = (Some (fetchPoolDataFromAPI a), st1) \<and>
         rpcLog st1 = rpcLog st @ [a] \<and>
         getPoolData st1 a again resave answer = (Some (fetchPoolDataFromAPI a), st1)))"
proof (intro conjI impI)
  assume s: "storage st (CACHE_PREFIX @ ''pool_'' @ a) = Some (d, ts)"
  {
    assume "now - ts \<le> 30000"
    then show "getPoolData st a now later answer = (Some d, st)"
      by (rule getPoolData_fresh [OF s])
  }
  assume o: "30000 < now - ts"
  show "getPoolData st a now later RpcAccount =
          (Some (fetchPoolDataFromAPI a),
           st\<lparr>storage :=
                (storage st)(CACHE_PREFIX @ ''pool_'' @ a \<mapsto> (fetchPoolDataFromAPI a, later)),
              rpcLog := rpcLog st @ [a]\<rparr>)"
    by (rule getPoolData_stale_found [OF s o])
  show "rpcLog (snd (getPoolData st a now later answer)) = rpcLog st @ [a]"
  proof (cases "answer = RpcAccount")
    case True
    then show ?thesis by (simp add: getPoolData_stale_found [OF s o])
  next
    case False
    then show ?thesis by (simp add: getPoolData_stale_failed [OF s o])
  qed
  {
    assume "answer \<noteq> RpcAccount"
    then show "getPoolData st a now later answer =
             (None, st\<lparr>storage := (storage st)(CACHE_PREFIX @ ''pool_'' @ a := None),
                rpcLog := rpcLog st @ [a]\<rparr>)"
      by (rule getPoolData_stale_failed [OF s o])
  }
next
  assume h: "storage st (CACHE_PREFIX @ ''pool_'' @ a) = None \<and> again - later \<le> 30000"
  let ?st1 = "st\<lparr>storage :=
                (storage st)(CACHE_PREFIX @ ''pool_'' @ a \<mapsto> (fetchPoolDataFromAPI a, later)),
              rpcLog := rpcLog st @ [a]\<rparr>"
  from h have first: "getPoolData st a now later RpcAccount =
      (Some (fetchPoolDataFromAPI a), ?st1)"
    by (simp add: getPoolData_miss_found)
  have held: "storage ?st1 (CACHE_PREFIX @ ''pool_'' @ a) =
      Some (fetchPoolDataFromAPI a, later)"
    by simp
  from h have "again - later \<le> 30000" by (rule conjunct2)
  then have second: "getPoolData ?st1 a again resave answer =
      (Some (fetchPoolDataFromAPI a), ?st1)"
    by (rule getPoolData_fresh [OF held])
  have log: "rpcLog ?st1 = rpcLog st @ [a]" by simp
  show "\<exists>st1. getPoolData st a now later RpcAccount = (Some (fetchPoolDataFromAPI a), st1) \<and>
         rpcLog st1 = rpcLog st @ [a] \<and>
         getPoolData st1 a again resave answer = (Some (fetchPoolDataFromAPI a), st1)"
    by (rule exI [of _ ?st1]) (intro conjI first log second)
qed

theorem pool_cache_freshness_witness:
  "getPoolData
     \<lparr>storage = [CACHE_PREFIX @ ''pool_'' @ ''A'' \<mapsto> (fetchPoolDataFromAPI ''B'', 1000)],
      rpcLog = []\<rparr> ''A'' 31000 31005 RpcAccount =
     (Some (fetchPoolDataFromAPI ''B''),
      \<lparr>storage = [CACHE_PREFIX @ ''pool_'' @ ''A'' \<mapsto> (fetchPoolDataFromAPI ''B'', 1000)],
       rpcLog = []\<rparr>) \<and>
   getPoolData
     \<lparr>storage = [CACHE_PREFIX @ ''pool_'' @ ''A'' \<mapsto> (fetchPoolDataFromAPI ''B'', 1000)],
      rpcLog = []\<rparr> ''A'' 31001 31005 RpcAccount =
     (Some (fetchPoolDataFromAPI ''A''),
      \<lparr>storage = [CACHE_PREFIX @ ''pool_'' @ ''A'' \<mapsto> (fetchPoolDataFromAPI ''A'', 31005)],
       rpcLog = [''A'']\<rparr>) \<and>
   (\<exists>st1. getPoolData \<lparr>storage = Map.empty, rpcLog = []\<rparr> ''A'' 0 5 RpcAccount =
            (Some (fetchPoolDataFromAPI ''A''), st1) \<and>
          rpcLog st1 = [''A''] \<and>
          getPoolData st1 ''A'' 30005 30010 RpcThrows = (Some (fetchPoolDataFromAPI ''A''), st1))"
  using pool_cache_freshness [where
      st = "\<lparr>storage = [CACHE_PREFIX @ ''pool_'' @ ''A'' \<mapsto> (fetchPoolDataFromAPI ''B'', 1000)],
        rpcLog = []\<rparr>" and a = "''A''" and d = "fetchPoolDataFromAPI ''B''" and ts = 1000
      and now = 31000 and later = 31005 and answer = RpcAccount]
    pool_cache_freshness [where
      st = "\<lparr>storage = [CACHE_PREFIX @ ''pool_'' @ ''A'' \<mapsto> (fetchPoolDataFromAPI ''B'', 1000)],
        rpcLog = []\<rparr>" and a = "''A''" and d = "fetchPoolDataFromAPI ''B''" and ts = 1000
      and now = 31001 and later = 31005 and answer = RpcAccount]
    pool_cache_freshness [where
      st = "\<lparr>storage = Map.empty, rpcLog = []\<rparr>" and a = "''A''" and now = 0 and later = 5
      and again = 30005 and resave = 30010 and answer = RpcThrows]
  by simp

section \<open>Properties of the allocation\<close>

lemma map_of_put: "map_of (put ws k v) k' = (if k' = k then Some v else map_of ws k')"
  by (induction ws) auto

lemma calculateOptimalAllocations_ids:
  "map poolId (calculateOptimalAllocations ps invest rt) = map poolId ps"
  by (simp add: calculateOptimalAllocations_def Let_def comp_def)

lemma calculateOptimalAllocations_fields:
  assumes "p \<in> set (calculateOptimalAllocations ps invest rt)"
  shows "\<exists>w. allocationSuggestion p =
           Some \<lparr>amount = jmul invest w, percentage = jmul w (Fin 100)\<rparr>"
  using assms by (auto simp add: calculateOptimalAllocations_def Let_def)

lemma getPoolsData_ids:
  "map poolId (getPoolsData cl ids) =
     filter (\<lambda>pid. case map_of SUPPORTED_POOLS pid of
                None \<Rightarrow> False
              | Some cfg \<Rightarrow> poolDataAt cl (cfg_address cfg) \<noteq> None \<and>
                           priceDataAt cl (cfg_address cfg) \<noteq> None) ids"
  by (induction ids)
    (auto simp add: aggregatePoolData_def calculateOptimalRange_def Let_def
      split: option.splits sum.splits)

lemmas mock_run =
  SUPPORTED_POOLS_def mockClient_def feedClient_def fetchPoolDataFromAPI_def mockPools_def
  fetchPriceDataFromAPI_def aggregatePoolData_def calculateOptimalRange_def
  determineTrend_def estimateImpermanentLoss_def jsub_def jlt_def Let_def usdc_def
  inf_of_sign_def

lemmas allocation_run =
  calculateOptimalAllocations_def adjustWeightsForRiskTolerance_def
  applyHedgeStrategy_def hedgeAdjust_def reduceOther_def normalizeWeights_def
  avgVolatility_def DEFAULT_ALLOCATION_WEIGHTS_def

lemma medium_sol_eurc:
  "map allocationSuggestion
     (calculateOptimalAllocations
        (getPoolsData (mockClient (1 / 2) 0) [''SOL_USDC'', ''EURC_USDC'']) (Fin 10000) Medium) =
   [Some \<lparr>amount = Fin (50000 / 9), percentage = Fin (500 / 9)\<rparr>,
    Some \<lparr>amount = Fin (40000 / 9), percentage = Fin (400 / 9)\<rparr>]"
  by (simp add: mock_run allocation_run)

text \<open>
  The exponent that \<open>b64\<close> reads off the logarithm, from two bounds.
\<close>

lemma pow2_powr: "pow2 e = 2 powr (of_int e)"
proof (cases "0 \<le> e")
  case True
  then have "2 powr (of_int e) = (2::real) powr (real (nat e))" by simp
  also have "\<dots> = 2 ^ nat e" by (simp add: powr_realpow)
  finally show ?thesis using True by (simp add: pow2_def)
next
  case False
  then have "2 powr (of_int e) = (2::real) powr (- real (nat (- e)))" by simp
  also have "\<dots> = 1 / 2 ^ nat (- e)" by (simp add: powr_minus powr_realpow divide_inverse)
  finally show ?thesis using False by (simp add: pow2_def)
qed

lemma ulp_exp_normal:
  assumes "pow2 e \<le> \<bar>x\<bar>" "\<bar>x\<bar> < pow2 (e + 1)" "- 1022 \<le> e"
  shows "ulp_exp x = e - 52"
proof -
  have p: "0 < pow2 e" by (simp add: pow2_powr)
  with assms have x: "0 < \<bar>x\<bar>" by linarith
  have "\<lfloor>log 2 \<bar>x\<bar>\<rfloor> = e"
    using assms x by (simp add: floor_log_eq_powr_iff pow2_powr)
  with assms show ?thesis by (simp add: ulp_exp_def)
qed

lemma b64_normal:
  assumes "pow2 e \<le> \<bar>x\<bar>" "\<bar>x\<bar> < pow2 (e + 1)" "- 1022 \<le> e"
  shows "b64 x = of_int (round_even (x / pow2 (e - 52))) * pow2 (e - 52)"
proof -
  have p: "0 < pow2 e" by (simp add: pow2_powr)
  with assms have x: "x \<noteq> 0" by auto
  show ?thesis using x by (simp add: b64_def ulp_exp_normal [OF assms])
qed

text \<open>
  The roundings of the default configuration: four pools, medium tolerance, 10000 to
  invest. The base weights are 0.25 and three times 0.20; their sum comes out as
  0.8500000000000001.
\<close>

lemma rnd_quarter: "rnd (Fin (1 / 4)) = Fin (1 / 4)"
  using b64_normal [of "- 2" "1 / 4"]
  by (simp add: pow2_def round_even_def overflow_threshold_def underflow_threshold_def)

lemma rnd_fifth: "rnd (Fin (1 / 5)) = Fin (3602879701896397 / 18014398509481984)"
  using b64_normal [of "- 3" "1 / 5"]
  by (simp add: pow2_def round_even_def overflow_threshold_def underflow_threshold_def)

lemma rnd_zero: "rnd (Fin 0) = Fin 0"
  by (simp add: b64_def overflow_threshold_def underflow_threshold_def)

lemma rnd_total_two: "rnd (Fin (8106479329266893 / 18014398509481984)) =
     Fin (8106479329266893 / 18014398509481984)"
  using b64_normal [of "- 2" "8106479329266893 / 18014398509481984"]
  by (simp add: pow2_def round_even_def overflow_threshold_def underflow_threshold_def)

lemma rnd_total_three: "rnd (Fin (5854679515581645 / 9007199254740992)) =
     Fin (5854679515581645 / 9007199254740992)"
  using b64_normal [of "- 1" "5854679515581645 / 9007199254740992"]
  by (simp add: pow2_def round_even_def overflow_threshold_def underflow_threshold_def)

lemma rnd_total_four: "rnd (Fin (15312238733059687 / 18014398509481984)) =
     Fin (1914029841632461 / 2251799813685248)"
  using b64_normal [of "- 1" "15312238733059687 / 18014398509481984"]
  by (simp add: pow2_def round_even_def overflow_threshold_def underflow_threshold_def)

lemma rnd_weight_sol: "rnd (Fin (562949953421312 / 1914029841632461)) =
     Fin (2649176251394409 / 9007199254740992)"
  using b64_normal [of "- 2" "562949953421312 / 1914029841632461"]
  by (simp add: pow2_def round_even_def overflow_threshold_def underflow_threshold_def)

lemma rnd_weight_rest: "rnd (Fin (3602879701896397 / 15312238733059688)) =
     Fin (4238682002231055 / 18014398509481984)"
  using b64_normal [of "- 3" "3602879701896397 / 15312238733059688"]
  by (simp add: pow2_def round_even_def overflow_threshold_def underflow_threshold_def)

lemma rnd_amount_sol: "rnd (Fin (1655735157121505625 / 562949953421312)) =
     Fin (6467715457505881 / 2199023255552)"
  using b64_normal [of "11" "1655735157121505625 / 562949953421312"]
  by (simp add: pow2_def round_even_def overflow_threshold_def underflow_threshold_def)

lemma rnd_percentage_sol: "rnd (Fin (66229406284860225 / 2251799813685248)) =
     Fin (1034834473200941 / 35184372088832)"
  using b64_normal [of "4" "66229406284860225 / 2251799813685248"]
  by (simp add: pow2_def round_even_def overflow_threshold_def underflow_threshold_def)

lemma rnd_amount_rest: "rnd (Fin (2649176251394409375 / 1125899906842624)) =
     Fin (2587086183002353 / 1099511627776)"
  using b64_normal [of "11" "2649176251394409375 / 1125899906842624"]
  by (simp add: pow2_def round_even_def overflow_threshold_def underflow_threshold_def)

lemma rnd_percentage_rest: "rnd (Fin (105967050055776375 / 4503599627370496)) =
     Fin (6622940628486023 / 281474976710656)"
  using b64_normal [of "4" "105967050055776375 / 4503599627370496"]
  by (simp add: pow2_def round_even_def overflow_threshold_def underflow_threshold_def)

lemma rnd_hundredth_rest: "rnd (Fin (6622940628486023 / 28147497671065600)) =
     Fin (8477364004462109 / 36028797018963968)"
  using b64_normal [of "- 3" "6622940628486023 / 28147497671065600"]
  by (simp add: pow2_def round_even_def overflow_threshold_def underflow_threshold_def)

lemma rnd_back_rest: "rnd (Fin (5298352502788818125 / 2251799813685248)) =
     Fin (5174172366004705 / 2199023255552)"
  using b64_normal [of "11" "5298352502788818125 / 2251799813685248"]
  by (simp add: pow2_def round_even_def overflow_threshold_def underflow_threshold_def)

lemmas default_roundings =
  rnd_zero rnd_quarter rnd_fifth rnd_total_two rnd_total_three rnd_total_four
  rnd_weight_sol rnd_weight_rest rnd_amount_sol rnd_percentage_sol rnd_amount_rest
  rnd_percentage_rest rnd_hundredth_rest rnd_back_rest

lemmas allocation_run_b64 =
  calculateOptimalAllocations_b64_def adjustWeightsForRiskTolerance_b64_def
  applyHedgeStrategy_b64_def hedgeAdjust_b64_def reduceOther_b64_def normalizeWeights_b64_def
  avgVolatility_b64_def DEFAULT_ALLOCATION_WEIGHTS_def radd_def rsub_def rmul_def rdiv_def

lemma calculateOptimalAllocations_b64_fields:
  assumes "p \<in> set (calculateOptimalAllocations_b64 ps invest rt)"
  shows "allocationSuggestion p =
           Some \<lparr>amount =
                   rmul invest
                     (jor (map_of (applyHedgeStrategy_b64 ps
                             (adjustWeightsForRiskTolerance_b64 ps rt)) (poolId p)) (Fin 0)),
                 percentage =
                   rmul (jor (map_of (applyHedgeStrategy_b64 ps
                             (adjustWeightsForRiskTolerance_b64 ps rt)) (poolId p)) (Fin 0))
                     (Fin 100)\<rparr>"
  using assms by (auto simp add: calculateOptimalAllocations_b64_def Let_def)

text \<open>
  C10. The recommendation carries the investment it was given, and every pool in it has
  an allocation whose amount and percentage come from one weight \<open>w\<close>, the pool's entry
  in the normalized weights (0 when it has none), each by one multiplication: the amount
  is the investment times \<open>w\<close>, the percentage is \<open>w\<close> times 100. That holds in exact
  arithmetic and in binary64 alike.
\<close>

theorem allocation_fields_consistent:
  "(\<exists>r. generateRecommendations cl now invest fees ids rt = Inr r \<and>
       totalInvestment r = invest \<and>
       (\<forall>p\<in>set (pools r). \<exists>w.
          w = jor (map_of (applyHedgeStrategy (getPoolsData cl ids)
                     (adjustWeightsForRiskTolerance (getPoolsData cl ids) rt)) (poolId p))
                (Fin 0) \<and>
          allocationSuggestion p =
            Some \<lparr>amount = jmul (totalInvestment r) w, percentage = jmul w (Fin 100)\<rparr>)) \<and>
   (\<forall>p\<in>set (calculateOptimalAllocations_b64 ps invest rt). \<exists>w.
      w = jor (map_of (applyHedgeStrategy_b64 ps (adjustWeightsForRiskTolerance_b64 ps rt))
                 (poolId p)) (Fin 0) \<and>
      allocationSuggestion p =
        Some \<lparr>amount = rmul invest w, percentage = rmul w (Fin 100)\<rparr>)"
proof (rule conjI)
  let ?ps = "calculateOptimalAllocations (getPoolsData cl ids) invest rt"
  have "allocationSuggestion p =
          Some \<lparr>amount =
                  jmul invest
                    (jor (map_of (applyHedgeStrategy (getPoolsData cl ids)
                            (adjustWeightsForRiskTolerance (getPoolsData cl ids) rt))
                          (poolId p)) (Fin 0)),
                percentage =
                  jmul (jor (map_of (applyHedgeStrategy (getPoolsData cl ids)
                            (adjustWeightsForRiskTolerance (getPoolsData cl ids) rt))
                          (poolId p)) (Fin 0)) (Fin 100)\<rparr>"
    if "p \<in> set ?ps" for p
    using that by (auto simp add: calculateOptimalAllocations_def Let_def)
  then show "\<exists>r. generateRecommendations cl now invest fees ids rt = Inr r \<and>
       totalInvestment r = invest \<and>
       (\<forall>p\<in>set (pools r). \<exists>w.
          w = jor (map_of (applyHedgeStrategy (getPoolsData cl ids)
                     (adjustWeightsForRiskTolerance (getPoolsData cl ids) rt)) (poolId p))
                (Fin 0) \<and>
          allocationSuggestion p =
            Some \<lparr>amount = jmul (totalInvestment r) w, percentage = jmul w (Fin 100)\<rparr>)"
    by (simp add: generateRecommendations_def Let_def)
next
  show "\<forall>p\<in>set (calculateOptimalAllocations_b64 ps invest rt). \<exists>w.
      w = jor (map_of (applyHedgeStrategy_b64 ps (adjustWeightsForRiskTolerance_b64 ps rt))
                 (poolId p)) (Fin 0) \<and>
      allocationSuggestion p =
        Some \<lparr>amount = rmul invest w, percentage = rmul w (Fin 100)\<rparr>"
    using calculateOptimalAllocations_b64_fields by simp
qed

theorem allocation_fields_consistent_witness:
  "\<exists>r. generateRecommendations (mockClient (1 / 2) 0) 0 (Fin 10000) (Fin 1)
          [''SOL_USDC'', ''EURC_USDC''] Medium = Inr r \<and>
       totalInvestment r = Fin 10000 \<and>
       map allocationSuggestion (pools r) =
         [Some \<lparr>amount = Fin (50000 / 9), percentage = Fin (500 / 9)\<rparr>,
          Some \<lparr>amount = Fin (40000 / 9), percentage = Fin (400 / 9)\<rparr>] \<and>
       jmul (Fin 10000) (Fin (5 / 9)) = Fin (50000 / 9) \<and>
       jmul (Fin (5 / 9)) (Fin 100) = Fin (500 / 9) \<and>
       jmul (Fin 10000) (Fin (4 / 9)) = Fin (40000 / 9) \<and>
       jmul (Fin (4 / 9)) (Fin 100) = Fin (400 / 9)"
proof -
  from allocation_fields_consistent
    [of "mockClient (1 / 2) 0" 0 "Fin 10000" "Fin 1" "[''SOL_USDC'', ''EURC_USDC'']" Medium,
      THEN conjunct1]
  obtain r where
    r: "generateRecommendations (mockClient (1 / 2) 0) 0 (Fin 10000) (Fin 1)
          [''SOL_USDC'', ''EURC_USDC''] Medium = Inr r"
    and t: "totalInvestment r = Fin 10000"
    by blast
  from r have "pools r =
      calculateOptimalAllocations
        (getPoolsData (mockClient (1 / 2) 0) [''SOL_USDC'', ''EURC_USDC'']) (Fin 10000) Medium"
    by (auto simp add: generateRecommendations_def Let_def)
  then have m: "map allocationSuggestion (pools r) =
         [Some \<lparr>amount = Fin (50000 / 9), percentage = Fin (500 / 9)\<rparr>,
          Some \<lparr>amount = Fin (40000 / 9), percentage = Fin (400 / 9)\<rparr>]"
    by (simp only: medium_sol_eurc)
  have a: "jmul (Fin 10000) (Fin (5 / 9)) = Fin (50000 / 9)"
    and b: "jmul (Fin (5 / 9)) (Fin 100) = Fin (500 / 9)"
    and c: "jmul (Fin 10000) (Fin (4 / 9)) = Fin (40000 / 9)"
    and d: "jmul (Fin (4 / 9)) (Fin 100) = Fin (400 / 9)"
    by simp_all
  show ?thesis
    by (rule exI [of _ r]) (intro conjI r t m a b c d)
qed

text \<open>
  Against C10 as worded, in binary64, on the default configuration. The first pool has
  the amount 2941.1764705882347 and each of the other three 2352.9411764705883, with
  the percentage 23.52941176470588; the investment times the hundredth of that
  percentage is 2352.941176470588, one unit in the last place below the amount.
\<close>

theorem allocation_fields_rounding_counterexample:
  "map allocationSuggestion
     (calculateOptimalAllocations_b64
        (getPoolsData (mockClient (1 / 2) 0)
           [''SOL_USDC'', ''CBBTC_USDC'', ''WETH_USDC'', ''EURC_USDC''])
        (Fin 10000) Medium) =
   [Some \<lparr>amount = Fin (6467715457505881 / 2 ^ 41),
           percentage = Fin (1034834473200941 / 2 ^ 45)\<rparr>,
    Some \<lparr>amount = Fin (2587086183002353 / 2 ^ 40),
           percentage = Fin (6622940628486023 / 2 ^ 48)\<rparr>,
    Some \<lparr>amount = Fin (2587086183002353 / 2 ^ 40),
           percentage = Fin (6622940628486023 / 2 ^ 48)\<rparr>,
    Some \<lparr>amount = Fin (2587086183002353 / 2 ^ 40),
           percentage = Fin (6622940628486023 / 2 ^ 48)\<rparr>] \<and>
   rmul (Fin 10000) (rdiv (Fin (6622940628486023 / 2 ^ 48)) (Fin 100)) =
     Fin (5174172366004705 / 2 ^ 41) \<and>
   Fin (5174172366004705 / 2 ^ 41) \<noteq> Fin (2587086183002353 / 2 ^ 40)"
  by (simp add: mock_run allocation_run_b64 default_roundings del: rnd.simps)

lemma yield_fold:
  "map amountOr0 ps = map Fin xs \<Longrightarrow> map apy ps = map Fin ys \<Longrightarrow>
   foldl (\<lambda>acc pool.
       let alloc = amountOr0 pool;
           dailyYield = jdiv (jdiv (jmul alloc (apy pool)) (Fin 365)) (Fin 100)
       in jadd acc dailyYield) (Fin z) ps =
     Fin (z + (\<Sum>(x, y)\<leftarrow>zip xs ys. x * y / 365 / 100))"
proof (induction ps arbitrary: xs ys z)
  case Nil
  then show ?case by simp
next
  case (Cons p ps)
  from Cons.prems obtain x xs' where xs: "xs = x # xs'" "amountOr0 p = Fin x"
    "map amountOr0 ps = map Fin xs'"
    by (cases xs) auto
  from Cons.prems obtain y ys' where ys: "ys = y # ys'" "apy p = Fin y"
    "map apy ps = map Fin ys'"
    by (cases ys) auto
  show ?case
    using Cons.IH [OF xs(3) ys(3), of "z + x * y / 365 / 100"] xs(1,2) ys(1,2)
    by (simp add: Let_def add.assoc)
qed

text \<open>
  C4. The recommendation's expected daily yield is \<^verbatim>\<open>calculateExpectedDailyYield\<close> of
  its own pools, and for pools whose amounts \<open>xs\<close> and yields \<open>ys\<close> are finite that is
  the sum over the pools of the amount times the annual yield over 365. The yield field
  \<^verbatim>\<open>apy\<close> is a percentage, 12.4 standing for 12.4%, so that the yield of a pool is
  \<open>y / 100\<close> and the daily share of an amount \<open>x\<close> is what the code evaluates,
  \<open>x \<sqdot> y / 365 / 100\<close>. The amount is read as
  \<^verbatim>\<open>pool.allocationSuggestion?.amount || 0\<close>.
\<close>

theorem expected_daily_yield:
  "(\<exists>r. generateRecommendations cl now invest fees ids rt = Inr r \<and>
        expectedDailyYield r = calculateExpectedDailyYield (pools r)) \<and>
   (map amountOr0 ps = map Fin xs \<and> map apy ps = map Fin ys \<longrightarrow>
      calculateExpectedDailyYield ps = Fin (\<Sum>(x, y)\<leftarrow>zip xs ys. x * y / 365 / 100))"
proof (intro conjI impI)
  show "\<exists>r. generateRecommendations cl now invest fees ids rt = Inr r \<and>
        expectedDailyYield r = calculateExpectedDailyYield (pools r)"
    by (simp add: generateRecommendations_def Let_def)
next
  assume "map amountOr0 ps = map Fin xs \<and> map apy ps = map Fin ys"
  then show "calculateExpectedDailyYield ps = Fin (\<Sum>(x, y)\<leftarrow>zip xs ys. x * y / 365 / 100)"
    unfolding calculateExpectedDailyYield_def
    using yield_fold [of ps xs ys 0] by simp
qed

lemma medium_sol_eurc_amounts:
  "map amountOr0
     (calculateOptimalAllocations
        (getPoolsData (mockClient (1 / 2) 0) [''SOL_USDC'', ''EURC_USDC'']) (Fin 10000) Medium) =
   map Fin [50000 / 9, 40000 / 9] \<and>
   map apy
     (calculateOptimalAllocations
        (getPoolsData (mockClient (1 / 2) 0) [''SOL_USDC'', ''EURC_USDC'']) (Fin 10000) Medium) =
   map Fin [62 / 5, 21 / 5]"
  by (simp add: mock_run allocation_run amountOr0_def)

theorem expected_daily_yield_witness:
  "calculateExpectedDailyYield
     (calculateOptimalAllocations
        (getPoolsData (mockClient (1 / 2) 0) [''SOL_USDC'', ''EURC_USDC'']) (Fin 10000) Medium) =
   Fin (50000 / 9 * (62 / 5) / 365 / 100 + 40000 / 9 * (21 / 5) / 365 / 100)"
  using expected_daily_yield [of "mockClient (1 / 2) 0" 0 "Fin 10000" "Fin 1"
      "[''SOL_USDC'', ''EURC_USDC'']" Medium
      "calculateOptimalAllocations
        (getPoolsData (mockClient (1 / 2) 0) [''SOL_USDC'', ''EURC_USDC'']) (Fin 10000) Medium"
      "[50000 / 9, 40000 / 9]" "[62 / 5, 21 / 5]"]
    medium_sol_eurc_amounts
  by simp

lemmas portfolio_run =
  generateRecommendations_def calculateExpectedDailyYield_def assessPortfolioRisk_def
  calculateHedgeRatio_def calculateCorrelationScore_def amountOr0_def percentageOr0_def

text \<open>
  C2, as the code has it. \<^verbatim>\<open>generateRecommendations\<close> validates nothing and rejects
  nothing: for every investment, selection and risk tolerance the promise resolves, with
  the investment it was given and one allocated pool for each selected id that resolves,
  in the order of the selection. An id resolves when it is a supported pool for which
  the client has both pool data and a price; when none does, the list of pools is
  empty. The only guard is in the caller, \<^verbatim>\<open>fetchRecommendations\<close>: it stops with
  \<^verbatim>\<open>'Invalid configuration'\<close> on an investment of 0 or NaN or an empty selection, and
  lets a negative investment through.
\<close>

theorem generateRecommendations_never_rejects:
  "(\<exists>r. generateRecommendations cl now invest fees ids rt = Inr r \<and>
        totalInvestment r = invest \<and>
        map poolId (pools r) =
          filter (\<lambda>pid. case map_of SUPPORTED_POOLS pid of
                     None \<Rightarrow> False
                   | Some cfg \<Rightarrow> poolDataAt cl (cfg_address cfg) \<noteq> None \<and>
                                priceDataAt cl (cfg_address cfg) \<noteq> None) ids \<and>
        (\<forall>p\<in>set (pools r). allocationSuggestion p \<noteq> None)) \<and>
   (invest = Fin 0 \<or> invest = NaN \<or> ids = [] \<longrightarrow>
      fetchRecommendations cl now invest fees ids rt = Inl ''Invalid configuration'') \<and>
   (invest = Fin x \<and> x < 0 \<and> ids \<noteq> [] \<longrightarrow>
      fetchRecommendations cl now invest fees ids rt =
        generateRecommendations cl now invest fees ids rt)"
proof (intro conjI impI)
  let ?ps = "calculateOptimalAllocations (getPoolsData cl ids) invest rt"
  have i: "map poolId ?ps =
          filter (\<lambda>pid. case map_of SUPPORTED_POOLS pid of
                     None \<Rightarrow> False
                   | Some cfg \<Rightarrow> poolDataAt cl (cfg_address cfg) \<noteq> None \<and>
                                priceDataAt cl (cfg_address cfg) \<noteq> None) ids"
    by (simp only: calculateOptimalAllocations_ids getPoolsData_ids)
  have a: "\<forall>p\<in>set ?ps. allocationSuggestion p \<noteq> None"
    using calculateOptimalAllocations_fields by fastforce
  show "\<exists>r. generateRecommendations cl now invest fees ids rt = Inr r \<and>
        totalInvestment r = invest \<and>
        map poolId (pools r) =
          filter (\<lambda>pid. case map_of SUPPORTED_POOLS pid of
                     None \<Rightarrow> False
                   | Some cfg \<Rightarrow> poolDataAt cl (cfg_address cfg) \<noteq> None \<and>
                                priceDataAt cl (cfg_address cfg) \<noteq> None) ids \<and>
        (\<forall>p\<in>set (pools r). allocationSuggestion p \<noteq> None)"
    using i a by (simp add: generateRecommendations_def Let_def)
next
  assume "invest = Fin 0 \<or> invest = NaN \<or> ids = []"
  then show "fetchRecommendations cl now invest fees ids rt = Inl ''Invalid configuration''"
    by (simp only: fetchRecommendations_def if_True)
next
  assume "invest = Fin x \<and> x < 0 \<and> ids \<noteq> []"
  then show "fetchRecommendations cl now invest fees ids rt =
        generateRecommendations cl now invest fees ids rt"
    by (simp add: fetchRecommendations_def)
qed

theorem generateRecommendations_never_rejects_witness:
  "(\<exists>r. fetchRecommendations (mockClient (1 / 2) 0) 0 (Fin (- 5)) (Fin 1)
           [''SOL_USDC'', ''DOGE_USDC'', ''EURC_USDC''] Medium = Inr r \<and>
        totalInvestment r = Fin (- 5) \<and>
        map poolId (pools r) = [''SOL_USDC'', ''EURC_USDC'']) \<and>
   fetchRecommendations (mockClient (1 / 2) 0) 0 (Fin 10000) (Fin 1) [] Medium =
     Inl ''Invalid configuration''"
proof -
  note neg = generateRecommendations_never_rejects
      [of "mockClient (1 / 2) 0" 0 "Fin (- 5)" "Fin 1"
        "[''SOL_USDC'', ''DOGE_USDC'', ''EURC_USDC'']" Medium "- 5"]
  note none = generateRecommendations_never_rejects
      [of "mockClient (1 / 2) 0" 0 "Fin 10000" "Fin 1" "[]" Medium 0]
  have f: "filter (\<lambda>pid. case map_of SUPPORTED_POOLS pid of
                     None \<Rightarrow> False
                   | Some cfg \<Rightarrow>
                       poolDataAt (mockClient (1 / 2) 0) (cfg_address cfg) \<noteq> None \<and>
                       priceDataAt (mockClient (1 / 2) 0) (cfg_address cfg) \<noteq> None)
             [''SOL_USDC'', ''DOGE_USDC'', ''EURC_USDC''] = [''SOL_USDC'', ''EURC_USDC'']"
    by (simp add: SUPPORTED_POOLS_def mockClient_def fetchPriceDataFromAPI_def Let_def)
  from neg obtain r where
    g: "generateRecommendations (mockClient (1 / 2) 0) 0 (Fin (- 5)) (Fin 1)
          [''SOL_USDC'', ''DOGE_USDC'', ''EURC_USDC''] Medium = Inr r"
    and t: "totalInvestment r = Fin (- 5)"
    and i: "map poolId (pools r) =
          filter (\<lambda>pid. case map_of SUPPORTED_POOLS pid of
                     None \<Rightarrow> False
                   | Some cfg \<Rightarrow>
                       poolDataAt (mockClient (1 / 2) 0) (cfg_address cfg) \<noteq> None \<and>
                       priceDataAt (mockClient (1 / 2) 0) (cfg_address cfg) \<noteq> None)
             [''SOL_USDC'', ''DOGE_USDC'', ''EURC_USDC'']"
    by blast
  from neg have "fetchRecommendations (mockClient (1 / 2) 0) 0 (Fin (- 5)) (Fin 1)
          [''SOL_USDC'', ''DOGE_USDC'', ''EURC_USDC''] Medium =
        generateRecommendations (mockClient (1 / 2) 0) 0 (Fin (- 5)) (Fin 1)
          [''SOL_USDC'', ''DOGE_USDC'', ''EURC_USDC''] Medium"
    by simp
  with g have e: "fetchRecommendations (mockClient (1 / 2) 0) 0 (Fin (- 5)) (Fin 1)
          [''SOL_USDC'', ''DOGE_USDC'', ''EURC_USDC''] Medium = Inr r"
    by simp
  from i f have j: "map poolId (pools r) = [''SOL_USDC'', ''EURC_USDC'']"
    by (simp only:)
  from none have n: "fetchRecommendations (mockClient (1 / 2) 0) 0 (Fin 10000) (Fin 1) [] Medium =
     Inl ''Invalid configuration''"
    by simp
  show ?thesis
    by (intro conjI exI [of _ r] e t j n)
qed

text \<open>
  An investment of 0 with an empty selection, and an investment of 10000 with a
  selection of which nothing resolves: both promises resolve, with an empty portfolio.
\<close>

theorem generateRecommendations_rejects_counterexample:
  "generateRecommendations (mockClient (1 / 2) 0) 0 (Fin 0) (Fin 1) [] Medium =
     Inr \<lparr>totalInvestment = Fin 0, expectedDailyYield = Fin 0,
          expectedDailyYieldPercentage = NaN, portfolioRisk = Low, pools = [],
          hedgeRatio = Fin 0, correlationScore = Fin 0, lastUpdated = 0\<rparr> \<and>
   generateRecommendations (mockClient (1 / 2) 0) 0 (Fin 10000) (Fin 1) [''DOGE_USDC''] Medium =
     Inr \<lparr>totalInvestment = Fin 10000, expectedDailyYield = Fin 0,
          expectedDailyYieldPercentage = Fin 0, portfolioRisk = Low, pools = [],
          hedgeRatio = Fin 0, correlationScore = Fin 0, lastUpdated = 0\<rparr>"
  by (simp add: portfolio_run mock_run allocation_run)

section \<open>Properties of the hedge adjustment\<close>

lemma jor_not_NaN: "jor m (Fin 0) \<noteq> NaN"
  by (cases m; cases "the m") auto

lemma reduced_floor:
  "jmax (jsub (jor m (Fin 0)) (Fin r)) (Fin 0.05) \<noteq> NaN \<and>
   \<not> jlt (jmax (jsub (jor m (Fin 0)) (Fin r)) (Fin 0.05)) (Fin 0.05)"
proof (cases "jor m (Fin 0)")
  case (Fin x)
  then show ?thesis by (simp add: jsub_def jlt_def)
next
  case PInf
  then show ?thesis by (simp add: jsub_def jlt_def)
next
  case NInf
  then show ?thesis by (simp add: jsub_def jlt_def)
next
  case NaN
  then show ?thesis using jor_not_NaN [of m] by simp
qed

lemma boosted_cap: "\<not> jgt (jmin (jadd (jor m (Fin 0)) (Fin 0.10)) (Fin 0.40)) (Fin 0.40)"
proof (cases "jor m (Fin 0)")
  case (Fin x)
  then show ?thesis by simp
next
  case PInf
  then show ?thesis by simp
next
  case NInf
  then show ?thesis by simp
next
  case NaN
  then show ?thesis using jor_not_NaN [of m] by simp
qed

lemma reduceOther_eurc:
  "map_of (foldl (reduceOther red) w ps) ''EURC_USDC'' = map_of w ''EURC_USDC''"
  by (induction ps arbitrary: w) (simp_all add: reduceOther_def map_of_put)

lemma reduceOther_keeps_floor:
  assumes "\<exists>v. map_of w k = Some v \<and> v \<noteq> NaN \<and> \<not> jlt v (Fin 0.05)"
  shows "\<exists>v. map_of (foldl (reduceOther (Fin r)) w ps) k = Some v \<and> v \<noteq> NaN \<and>
           \<not> jlt v (Fin 0.05)"
  using assms
proof (induction ps arbitrary: w)
  case Nil
  then show ?case by simp
next
  case (Cons p ps)
  have "\<exists>v. map_of (reduceOther (Fin r) w p) k = Some v \<and> v \<noteq> NaN \<and> \<not> jlt v (Fin 0.05)"
    using Cons.prems reduced_floor [of "map_of w (poolId p)" r]
    by (simp add: reduceOther_def map_of_put)
  from Cons.IH [OF this] show ?case by simp
qed

lemma reduceOther_floor:
  assumes "p \<in> set ps" "poolId p \<noteq> ''EURC_USDC''"
  shows "\<exists>v. map_of (foldl (reduceOther (Fin r)) w ps) (poolId p) = Some v \<and> v \<noteq> NaN \<and>
           \<not> jlt v (Fin 0.05)"
  using assms
proof (induction ps arbitrary: w)
  case Nil
  then show ?case by simp
next
  case (Cons q ps)
  show ?case
  proof (cases "q = p")
    case True
    have "\<exists>v. map_of (reduceOther (Fin r) w p) (poolId p) = Some v \<and> v \<noteq> NaN \<and>
            \<not> jlt v (Fin 0.05)"
      using Cons.prems(2) reduced_floor [of "map_of w (poolId p)" r]
      by (simp add: reduceOther_def map_of_put)
    from reduceOther_keeps_floor [OF this] True show ?thesis by simp
  next
    case False
    with Cons.prems have "p \<in> set ps" by simp
    from Cons.IH [OF this Cons.prems(2)] show ?thesis by simp
  qed
qed

lemma reduceOther_once:
  assumes "distinct (map poolId ps)"
  shows "map_of (foldl (reduceOther red) w ps) k =
           (if k \<in> poolId ` set ps \<and> k \<noteq> ''EURC_USDC''
            then Some (jmax (jsub (jor (map_of w k) (Fin 0)) red) (Fin 0.05))
            else map_of w k)"
  using assms
proof (induction ps arbitrary: w)
  case Nil
  then show ?case by simp
next
  case (Cons p ps)
  from Cons.prems have d: "distinct (map poolId ps)" and n: "poolId p \<notin> poolId ` set ps"
    by simp_all
  show ?case
    using Cons.IH [OF d, of "reduceOther red w p"] n
    by (auto simp add: reduceOther_def map_of_put)
qed

lemma find_eurc:
  "(find (\<lambda>p. poolId p = ''EURC_USDC'') ps = None) = (''EURC_USDC'' \<notin> poolId ` set ps)"
  unfolding find_None_iff image_iff by metis

lemma two_pools:
  assumes "p \<in> set ps" "q \<in> set ps" "poolId p \<noteq> poolId q"
  shows "2 \<le> length ps"
proof -
  from assms have "p \<noteq> q" by auto
  with assms(1,2) have "card {p, q} \<le> card (set ps)"
    by (intro card_mono) auto
  also have "card (set ps) \<le> length ps" by (rule card_length)
  finally show ?thesis using \<open>p \<noteq> q\<close> by simp
qed

lemma hedgeAdjust_applied:
  assumes "jgt (avgVolatility ps) (Fin 5)" "''EURC_USDC'' \<in> poolId ` set ps"
  shows "hedgeAdjust ps ws =
           foldl (reduceOther (jdiv (Fin 0.10) (Fin (of_int (int (length ps) - 1)))))
             (put ws ''EURC_USDC'' (jmin (jadd (jor (map_of ws ''EURC_USDC'') (Fin 0)) (Fin 0.10))
                (Fin 0.40))) ps"
proof -
  from assms(2) obtain e where "find (\<lambda>p. poolId p = ''EURC_USDC'') ps = Some e"
    using find_eurc [of ps] by (cases "find (\<lambda>p. poolId p = ''EURC_USDC'') ps") auto
  with assms(1) show ?thesis by (simp add: hedgeAdjust_def Let_def)
qed

lemma hedgeAdjust_skipped:
  assumes "\<not> (jgt (avgVolatility ps) (Fin 5) \<and> ''EURC_USDC'' \<in> poolId ` set ps)"
  shows "hedgeAdjust ps ws = ws"
  using assms find_eurc [of ps] by (auto simp add: hedgeAdjust_def split: option.splits)

lemma reduction_finite:
  assumes "2 \<le> length ps"
  shows "jdiv (Fin 0.10) (Fin (of_int (int (length ps) - 1))) =
           Fin (0.10 / (real (length ps) - 1))"
proof -
  from assms have "real (length ps) - 1 \<noteq> 0" by simp
  moreover from assms have "(of_int (int (length ps) - 1) :: real) = real (length ps) - 1"
    by simp
  ultimately show ?thesis by simp
qed
text \<open>
  C3, as the code has it. The adjustment runs when the average magnitude of the 24h
  change is above 5 and \<^verbatim>\<open>EURC_USDC\<close> is among the pools; otherwise the weights go to
  the normalization unchanged. When it runs, and before the normalization: a finite
  weight \<open>x\<close> of \<^verbatim>\<open>EURC_USDC\<close> becomes \<open>min (x + 0.10) 0.40\<close>, and whatever it was it
  ends at most 0.40; every other pool ends with a weight that is a number and not below
  0.05, and, the pool ids being distinct, a finite weight \<open>x\<close> becomes
  \<open>max (x - 0.10 / (n - 1)) 0.05\<close> for \<open>n\<close> pools.
\<close>

theorem hedge_adjustment:
  "(jgt (avgVolatility ps) (Fin 5) \<and> ''EURC_USDC'' \<in> poolId ` set ps \<longrightarrow>
      (\<forall>x. map_of ws ''EURC_USDC'' = Some (Fin x) \<longrightarrow>
         map_of (hedgeAdjust ps ws) ''EURC_USDC'' = Some (Fin (min (x + 0.10) 0.40))) \<and>
      (\<exists>v. map_of (hedgeAdjust ps ws) ''EURC_USDC'' = Some v \<and> \<not> jgt v (Fin 0.40)) \<and>
      (\<forall>p\<in>set ps. poolId p \<noteq> ''EURC_USDC'' \<longrightarrow>
         (\<exists>v. map_of (hedgeAdjust ps ws) (poolId p) = Some v \<and> v \<noteq> NaN \<and>
              \<not> jlt v (Fin 0.05)) \<and>
         (distinct (map poolId ps) \<longrightarrow>
            (\<forall>x. map_of ws (poolId p) = Some (Fin x) \<longrightarrow>
               map_of (hedgeAdjust ps ws) (poolId p) =
                 Some (Fin (max (x - 0.10 / (real (length ps) - 1)) 0.05)))))) \<and>
   (\<not> (jgt (avgVolatility ps) (Fin 5) \<and> ''EURC_USDC'' \<in> poolId ` set ps) \<longrightarrow>
      hedgeAdjust ps ws = ws)"
proof (intro conjI impI allI ballI)
  assume h: "jgt (avgVolatility ps) (Fin 5) \<and> ''EURC_USDC'' \<in> poolId ` set ps"
  let ?red = "jdiv (Fin 0.10) (Fin (of_int (int (length ps) - 1)))"
  let ?boost = "jmin (jadd (jor (map_of ws ''EURC_USDC'') (Fin 0)) (Fin 0.10)) (Fin 0.40)"
  from h have ap: "hedgeAdjust ps ws = foldl (reduceOther ?red) (put ws ''EURC_USDC'' ?boost) ps"
    by (simp only: hedgeAdjust_applied)
  have e: "map_of (hedgeAdjust ps ws) ''EURC_USDC'' = Some ?boost"
    by (simp add: ap reduceOther_eurc map_of_put)
  show "\<exists>v. map_of (hedgeAdjust ps ws) ''EURC_USDC'' = Some v \<and> \<not> jgt v (Fin 0.40)"
    using e boosted_cap [of "map_of ws ''EURC_USDC''"] by simp
  {
    fix x
    assume "map_of ws ''EURC_USDC'' = Some (Fin x)"
    then show "map_of (hedgeAdjust ps ws) ''EURC_USDC'' = Some (Fin (min (x + 0.10) 0.40))"
      by (simp add: e min_def)
  }
  fix p
  assume p: "p \<in> set ps" and q: "poolId p \<noteq> ''EURC_USDC''"
  from h obtain eu where eu: "eu \<in> set ps" "poolId eu = ''EURC_USDC''" by auto
  from p eu q have len: "2 \<le> length ps" by (intro two_pools [of p ps eu]) simp_all
  have red: "?red = Fin (0.10 / (real (length ps) - 1))"
    by (rule reduction_finite [OF len])
  show "\<exists>v. map_of (hedgeAdjust ps ws) (poolId p) = Some v \<and> v \<noteq> NaN \<and>
              \<not> jlt v (Fin 0.05)"
    unfolding ap red by (rule reduceOther_floor [OF p q])
  {
    fix x
    assume d: "distinct (map poolId ps)" and w: "map_of ws (poolId p) = Some (Fin x)"
    from p have "poolId p \<in> poolId ` set ps" by simp
    with q w show "map_of (hedgeAdjust ps ws) (poolId p) =
                 Some (Fin (max (x - 0.10 / (real (length ps) - 1)) 0.05))"
      unfolding ap red
      by (simp add: reduceOther_once [OF d] map_of_put jsub_def max_def)
  }
next
  assume "\<not> (jgt (avgVolatility ps) (Fin 5) \<and> ''EURC_USDC'' \<in> poolId ` set ps)"
  then show "hedgeAdjust ps ws = ws" by (rule hedgeAdjust_skipped)
qed

lemma volatile_sol_eurc:
  "jgt (avgVolatility (getPoolsData (feedClient (Fin 6)) [''SOL_USDC'', ''EURC_USDC''])) (Fin 5) \<and>
   map poolId (getPoolsData (feedClient (Fin 6)) [''SOL_USDC'', ''EURC_USDC'']) =
     [''SOL_USDC'', ''EURC_USDC''] \<and>
   adjustWeightsForRiskTolerance
     (getPoolsData (feedClient (Fin 6)) [''SOL_USDC'', ''EURC_USDC'']) Medium =
     [(''SOL_USDC'', Fin (1 / 4)), (''EURC_USDC'', Fin (1 / 5))]"
  by (simp add: mock_run allocation_run)

lemma ids_facts:
  assumes "map poolId ps = [a, b]" "a \<noteq> b"
  shows "b \<in> poolId ` set ps" "distinct (map poolId ps)" "length ps = 2"
    "\<exists>p. p \<in> set ps \<and> poolId p = a"
proof -
  from assms(1) obtain p q where pq: "ps = [p, q]" "poolId p = a" "poolId q = b"
    by (cases ps; cases "tl ps") auto
  from pq show "b \<in> poolId ` set ps" by simp
  from pq assms(2) show "distinct (map poolId ps)" by simp
  from pq show "length ps = 2" by simp
  from pq show "\<exists>p. p \<in> set ps \<and> poolId p = a" by auto
qed

theorem hedge_adjustment_witness:
  "map_of (hedgeAdjust (getPoolsData (feedClient (Fin 6)) [''SOL_USDC'', ''EURC_USDC''])
      [(''SOL_USDC'', Fin (1 / 4)), (''EURC_USDC'', Fin (1 / 5))]) ''EURC_USDC'' =
     Some (Fin (3 / 10)) \<and>
   map_of (hedgeAdjust (getPoolsData (feedClient (Fin 6)) [''SOL_USDC'', ''EURC_USDC''])
      [(''SOL_USDC'', Fin (1 / 4)), (''EURC_USDC'', Fin (1 / 5))]) ''SOL_USDC'' =
     Some (Fin (3 / 20)) \<and>
   hedgeAdjust (getPoolsData (feedClient (Fin 5)) [''SOL_USDC'', ''EURC_USDC''])
      [(''SOL_USDC'', Fin (1 / 4)), (''EURC_USDC'', Fin (1 / 5))] =
     [(''SOL_USDC'', Fin (1 / 4)), (''EURC_USDC'', Fin (1 / 5))]"
proof -
  define ps where "ps = getPoolsData (feedClient (Fin 6)) [''SOL_USDC'', ''EURC_USDC'']"
  define qs where "qs = getPoolsData (feedClient (Fin 5)) [''SOL_USDC'', ''EURC_USDC'']"
  define ws where "ws = [(''SOL_USDC'', Fin (1 / 4)), (''EURC_USDC'', Fin (1 / 5))]"
  have v: "jgt (avgVolatility ps) (Fin 5)"
    unfolding ps_def using volatile_sol_eurc by (rule conjunct1)
  have i: "map poolId ps = [''SOL_USDC'', ''EURC_USDC'']"
    unfolding ps_def using volatile_sol_eurc by blast
  have ne: "''SOL_USDC'' \<noteq> ''EURC_USDC''" by simp
  note f = ids_facts [OF i ne]
  from f(4) obtain p where p: "p \<in> set ps" "poolId p = ''SOL_USDC''" by blast
  have we: "map_of ws ''EURC_USDC'' = Some (Fin (1 / 5))"
    and wp: "map_of ws (poolId p) = Some (Fin (1 / 4))"
    by (simp_all add: ws_def p(2))
  have pe: "poolId p \<noteq> ''EURC_USDC''" by (simp add: p(2))
  note app = hedge_adjustment [of ps ws]
  from app have "jgt (avgVolatility ps) (Fin 5) \<and> ''EURC_USDC'' \<in> poolId ` set ps \<longrightarrow>
      (\<forall>x. map_of ws ''EURC_USDC'' = Some (Fin x) \<longrightarrow>
         map_of (hedgeAdjust ps ws) ''EURC_USDC'' = Some (Fin (min (x + 0.10) 0.40))) \<and>
      (\<exists>v. map_of (hedgeAdjust ps ws) ''EURC_USDC'' = Some v \<and> \<not> jgt v (Fin 0.40)) \<and>
      (\<forall>p\<in>set ps. poolId p \<noteq> ''EURC_USDC'' \<longrightarrow>
         (\<exists>v. map_of (hedgeAdjust ps ws) (poolId p) = Some v \<and> v \<noteq> NaN \<and>
              \<not> jlt v (Fin 0.05)) \<and>
         (distinct (map poolId ps) \<longrightarrow>
            (\<forall>x. map_of ws (poolId p) = Some (Fin x) \<longrightarrow>
               map_of (hedgeAdjust ps ws) (poolId p) =
                 Some (Fin (max (x - 0.10 / (real (length ps) - 1)) 0.05)))))"
    by (rule conjunct1)
  with v f(1) have b:
     "(\<forall>x. map_of ws ''EURC_USDC'' = Some (Fin x) \<longrightarrow>
         map_of (hedgeAdjust ps ws) ''EURC_USDC'' = Some (Fin (min (x + 0.10) 0.40))) \<and>
      (\<exists>v. map_of (hedgeAdjust ps ws) ''EURC_USDC'' = Some v \<and> \<not> jgt v (Fin 0.40)) \<and>
      (\<forall>p\<in>set ps. poolId p \<noteq> ''EURC_USDC'' \<longrightarrow>
         (\<exists>v. map_of (hedgeAdjust ps ws) (poolId p) = Some v \<and> v \<noteq> NaN \<and>
              \<not> jlt v (Fin 0.05)) \<and>
         (distinct (map poolId ps) \<longrightarrow>
            (\<forall>x. map_of ws (poolId p) = Some (Fin x) \<longrightarrow>
               map_of (hedgeAdjust ps ws) (poolId p) =
                 Some (Fin (max (x - 0.10 / (real (length ps) - 1)) 0.05)))))"
    by blast
  from b we have "map_of (hedgeAdjust ps ws) ''EURC_USDC'' = Some (Fin (min (1 / 5 + 0.10) 0.40))"
    by blast
  then have e: "map_of (hedgeAdjust ps ws) ''EURC_USDC'' = Some (Fin (3 / 10))"
    by simp
  from b p(1) pe f(2) wp have "map_of (hedgeAdjust ps ws) (poolId p) =
      Some (Fin (max (1 / 4 - 0.10 / (real (length ps) - 1)) 0.05))"
    by blast
  then have s: "map_of (hedgeAdjust ps ws) ''SOL_USDC'' = Some (Fin (3 / 20))"
    by (simp add: p(2) f(3))
  have "\<not> jgt (avgVolatility qs) (Fin 5)"
    unfolding qs_def by (simp add: mock_run allocation_run)
  then have n: "\<not> (jgt (avgVolatility qs) (Fin 5) \<and> ''EURC_USDC'' \<in> poolId ` set qs)"
    by blast
  from hedge_adjustment [of qs ws] have
    "\<not> (jgt (avgVolatility qs) (Fin 5) \<and> ''EURC_USDC'' \<in> poolId ` set qs) \<longrightarrow>
       hedgeAdjust qs ws = ws"
    by (rule conjunct2)
  with n have c: "hedgeAdjust qs ws = ws" by (rule rev_mp)
  from e s c show ?thesis
    unfolding ps_def qs_def ws_def by (intro conjI)
qed

text \<open>
  With every change at 6 the average is above 5. Without \<^verbatim>\<open>EURC_USDC\<close> among the
  pools nothing is adjusted: the weights stay 0.25 and 0.20. With it, the weights that
  \<^verbatim>\<open>applyHedgeStrategy\<close> returns are the normalized ones, and \<^verbatim>\<open>EURC_USDC\<close> holds two
  thirds.
\<close>

theorem hedge_adjustment_counterexample:
  "jgt (avgVolatility (getPoolsData (feedClient (Fin 6)) [''SOL_USDC'', ''CBBTC_USDC''])) (Fin 5) \<and>
   adjustWeightsForRiskTolerance
     (getPoolsData (feedClient (Fin 6)) [''SOL_USDC'', ''CBBTC_USDC'']) Medium =
     [(''SOL_USDC'', Fin (1 / 4)), (''CBBTC_USDC'', Fin (1 / 5))] \<and>
   hedgeAdjust (getPoolsData (feedClient (Fin 6)) [''SOL_USDC'', ''CBBTC_USDC''])
     [(''SOL_USDC'', Fin (1 / 4)), (''CBBTC_USDC'', Fin (1 / 5))] =
     [(''SOL_USDC'', Fin (1 / 4)), (''CBBTC_USDC'', Fin (1 / 5))] \<and>
   applyHedgeStrategy (getPoolsData (feedClient (Fin 6)) [''SOL_USDC'', ''EURC_USDC''])
     [(''SOL_USDC'', Fin (1 / 4)), (''EURC_USDC'', Fin (1 / 5))] =
     [(''SOL_USDC'', Fin (1 / 3)), (''EURC_USDC'', Fin (2 / 3))]"
  by (simp add: mock_run allocation_run)

section \<open>The sum of the weights\<close>

lemma sum_fold: "foldl jadd (Fin z) (map Fin xs) = Fin (z + sum_list xs)"
  by (induction xs arbitrary: z) (simp_all add: add.assoc)

lemma sum_list_divide: "sum_list (map (\<lambda>x. x / t) xs) = sum_list xs / t" for t :: real
  by (induction xs) (simp_all add: add_divide_distrib)

text \<open>
  The division under "Normalize weights to sum to 1" does what the comment says when
  the weights are finite and their sum is not 0.
\<close>

lemma normalizeWeights_sum:
  assumes "map snd ws = map Fin xs" "sum_list xs \<noteq> 0"
  shows "foldl jadd (Fin 0) (map snd (normalizeWeights ws)) = Fin 1"
proof -
  have t: "foldl (\<lambda>sum w. jadd sum w) (Fin 0) (map snd ws) = Fin (sum_list xs)"
    using sum_fold [of 0 xs] assms(1) by simp
  have "map snd (normalizeWeights ws) = map (\<lambda>w. jdiv w (Fin (sum_list xs))) (map snd ws)"
    by (simp add: normalizeWeights_def Let_def t case_prod_unfold comp_def)
  also have "\<dots> = map Fin (map (\<lambda>x. x / sum_list xs) xs)"
    using assms by simp
  finally show ?thesis
    using assms(2) sum_fold [of 0 "map (\<lambda>x. x / sum_list xs) xs"]
    by (simp add: sum_list_divide)
qed

lemma keys_put:
  "map fst (put ws k v) = (if k \<in> fst ` set ws then map fst ws else map fst ws @ [k])"
proof (induction ws)
  case Nil
  show ?case by simp
next
  case (Cons e ws)
  obtain k' v' where e: "e = (k', v')" by (cases e)
  show ?case
  proof (cases "k' = k")
    case True
    with e show ?thesis by simp
  next
    case False
    with e have "(k \<in> fst ` set (e # ws)) = (k \<in> fst ` set ws)" by auto
    with False e Cons.IH show ?thesis by simp
  qed
qed

lemma sum_list_scale:
  "sum_list (map (\<lambda>x. T * (x / t)) xs) = T * sum_list (map (\<lambda>x. x / t) xs)"
  for T t :: real
  by (induction xs) (simp_all add: distrib_left)

lemma keys_fold_put:
  assumes "distinct (map poolId ps)" "poolId ` set ps \<inter> fst ` set acc = {}"
  shows "map fst (foldl (\<lambda>ws pool. put ws (poolId pool) (g pool)) acc ps) =
           map fst acc @ map poolId ps"
  using assms
proof (induction ps arbitrary: acc)
  case Nil
  then show ?case by simp
next
  case (Cons p ps)
  from Cons.prems have n: "poolId p \<notin> fst ` set acc" by auto
  then have k: "map fst (put acc (poolId p) (g p)) = map fst acc @ [poolId p]"
    by (simp add: keys_put)
  from Cons.prems have d: "distinct (map poolId ps)" by simp
  have "fst ` set (put acc (poolId p) (g p)) = set (map fst (put acc (poolId p) (g p)))"
    by simp
  also have "\<dots> = insert (poolId p) (fst ` set acc)" by (simp add: k)
  finally have "poolId ` set ps \<inter> fst ` set (put acc (poolId p) (g p)) = {}"
    using Cons.prems by auto
  from Cons.IH [OF d this] show ?case by (simp add: k)
qed

lemma adjustWeights_keys:
  assumes "distinct (map poolId ps)"
  shows "map fst (adjustWeightsForRiskTolerance ps rt) = map poolId ps"
proof -
  have *: "(\<lambda>ws pool. if c pool then put ws (poolId pool) (a pool)
                        else put ws (poolId pool) (b pool)) =
           (\<lambda>ws pool. put ws (poolId pool) (if c pool then a pool else b pool))"
    for c :: "AggregatedPoolData \<Rightarrow> bool" and a b
    by (intro ext) simp
  have **: "(\<lambda>ws pool. if c pool then put ws (poolId pool) (a pool)
                        else if c' pool then put ws (poolId pool) (a' pool)
                        else put ws (poolId pool) (b pool)) =
           (\<lambda>ws pool. put ws (poolId pool)
              (if c pool then a pool else if c' pool then a' pool else b pool))"
    for c c' :: "AggregatedPoolData \<Rightarrow> bool" and a a' b
    by (intro ext) simp
  show ?thesis
  proof (cases rt)
    case Low
    then show ?thesis
      using keys_fold_put [OF assms, of "[]"]
      by (simp add: adjustWeightsForRiskTolerance_def Let_def *)
  next
    case Medium
    then show ?thesis
      using keys_fold_put [OF assms, of "[]"]
      by (simp add: adjustWeightsForRiskTolerance_def Let_def)
  next
    case High
    then show ?thesis
      using keys_fold_put [OF assms, of "[]"]
      by (simp add: adjustWeightsForRiskTolerance_def Let_def **)
  qed
qed

lemma reduceOther_keys:
  assumes "poolId ` set ps \<subseteq> fst ` set w"
  shows "map fst (foldl (reduceOther red) w ps) = map fst w"
  using assms
proof (induction ps arbitrary: w)
  case Nil
  then show ?case by simp
next
  case (Cons p ps)
  from Cons.prems have k: "map fst (reduceOther red w p) = map fst w"
    by (simp add: reduceOther_def keys_put)
  then have "fst ` set (reduceOther red w p) = fst ` set w"
    by (metis list.set_map)
  with Cons.prems have "poolId ` set ps \<subseteq> fst ` set (reduceOther red w p)" by simp
  from Cons.IH [OF this] k show ?case by simp
qed

lemma hedgeAdjust_keys:
  assumes "poolId ` set ps \<subseteq> fst ` set ws"
  shows "map fst (hedgeAdjust ps ws) = map fst ws"
proof (cases "jgt (avgVolatility ps) (Fin 5) \<and> ''EURC_USDC'' \<in> poolId ` set ps")
  case True
  let ?ws1 = "put ws ''EURC_USDC''
    (jmin (jadd (jor (map_of ws ''EURC_USDC'') (Fin 0)) (Fin 0.10)) (Fin 0.40))"
  from True assms have "''EURC_USDC'' \<in> fst ` set ws" by auto
  then have k: "map fst ?ws1 = map fst ws" by (simp add: keys_put)
  then have "fst ` set ?ws1 = fst ` set ws" by (metis list.set_map)
  with assms have "poolId ` set ps \<subseteq> fst ` set ?ws1" by simp
  from reduceOther_keys [OF this] k True show ?thesis
    by (simp add: hedgeAdjust_applied)
next
  case False
  then show ?thesis by (simp add: hedgeAdjust_skipped)
qed

lemma map_of_own_keys:
  "distinct (map fst kv) \<Longrightarrow> map (map_of kv) (map fst kv) = map (\<lambda>e. Some (snd e)) kv"
proof (induction kv)
  case Nil
  then show ?case by simp
next
  case (Cons e kv)
  obtain k v where e: "e = (k, v)" by (cases e)
  from Cons.prems e have n: "k \<notin> fst ` set kv" and d: "distinct (map fst kv)" by auto
  have "map (map_of (e # kv)) (map fst kv) = map (map_of kv) (map fst kv)"
    using n e by (intro map_cong) auto
  with Cons.IH [OF d] e show ?case by simp
qed

lemma percentage_of_weight:
  "jdiv (jor (Some (jmul (jor m (Fin 0)) (Fin 100))) (Fin 0)) (Fin 100) = jor m (Fin 0)"
proof (cases "jor m (Fin 0)")
  case (Fin x)
  then show ?thesis by simp
next
  case PInf
  then show ?thesis by (simp add: inf_of_sign_def)
next
  case NInf
  then show ?thesis by (simp add: inf_of_sign_def)
next
  case NaN
  then show ?thesis using jor_not_NaN [of m] by simp
qed

text \<open>
  The sums come out as intended when the pool ids are distinct and the weights after the
  hedge adjustment are finite numbers \<open>xs\<close> whose sum is not 0: then the weights of the
  pools (their percentages over 100) add up to 1, and the amounts add up to the
  investment.
\<close>

lemma allocation_sums:
  assumes d: "distinct (map poolId ps)"
    and f: "map snd (hedgeAdjust ps (adjustWeightsForRiskTolerance ps rt)) = map Fin xs"
    and n: "sum_list xs \<noteq> 0"
  shows "foldl jadd (Fin 0)
           (map (\<lambda>p. jdiv (percentageOr0 p) (Fin 100))
              (calculateOptimalAllocations ps (Fin T) rt)) = Fin 1 \<and>
         foldl jadd (Fin 0) (map amountOr0 (calculateOptimalAllocations ps (Fin T) rt)) = Fin T"
proof -
  let ?aw = "adjustWeightsForRiskTolerance ps rt"
  let ?hw = "hedgeAdjust ps ?aw"
  let ?fw = "normalizeWeights ?hw"
  let ?t = "sum_list xs"
  have ka: "map fst ?aw = map poolId ps" by (rule adjustWeights_keys [OF d])
  then have "poolId ` set ps \<subseteq> fst ` set ?aw" by (metis list.set_map order_refl)
  then have kh: "map fst ?hw = map poolId ps" using ka by (simp add: hedgeAdjust_keys)
  have tot: "foldl (\<lambda>sum w. jadd sum w) (Fin 0) (map snd ?hw) = Fin ?t"
    using sum_fold [of 0 xs] f by simp
  have kf: "map fst ?fw = map poolId ps"
    using kh by (simp add: normalizeWeights_def Let_def case_prod_unfold comp_def)
  have "map snd ?fw = map (\<lambda>w. jdiv w (Fin ?t)) (map snd ?hw)"
    by (simp add: normalizeWeights_def Let_def tot case_prod_unfold comp_def)
  also have "\<dots> = map Fin (map (\<lambda>x. x / ?t) xs)" using f n by simp
  finally have vf: "map snd ?fw = map Fin (map (\<lambda>x. x / ?t) xs)" .
  from kf d have df: "distinct (map fst ?fw)" by simp
  have "map (\<lambda>p. map_of ?fw (poolId p)) ps = map (map_of ?fw) (map fst ?fw)"
    by (simp add: kf comp_def)
  also have "\<dots> = map (\<lambda>e. Some (snd e)) ?fw" by (rule map_of_own_keys [OF df])
  also have "\<dots> = map Some (map snd ?fw)" by simp
  finally have look: "map (\<lambda>p. map_of ?fw (poolId p)) ps =
      map Some (map Fin (map (\<lambda>x. x / ?t) xs))"
    by (simp only: vf)
  have w: "map (\<lambda>p. jor (map_of ?fw (poolId p)) (Fin 0)) ps = map Fin (map (\<lambda>x. x / ?t) xs)"
  proof -
    have "map (\<lambda>p. jor (map_of ?fw (poolId p)) (Fin 0)) ps =
        map (\<lambda>m. jor m (Fin 0)) (map (\<lambda>p. map_of ?fw (poolId p)) ps)"
      by (simp add: comp_def)
    also have "\<dots> = map (\<lambda>m. jor m (Fin 0)) (map Some (map Fin (map (\<lambda>x. x / ?t) xs)))"
      by (simp only: look)
    also have "\<dots> = map Fin (map (\<lambda>x. x / ?t) xs)"
      by (simp add: comp_def)
    finally show ?thesis .
  qed
  have pc: "map (\<lambda>p. jdiv (percentageOr0 p) (Fin 100))
              (calculateOptimalAllocations ps (Fin T) rt) =
            map (\<lambda>p. jor (map_of ?fw (poolId p)) (Fin 0)) ps"
    by (simp add: calculateOptimalAllocations_def applyHedgeStrategy_def Let_def comp_def
        percentageOr0_def percentage_of_weight del: jor.simps jmul.simps jdiv.simps)
  have "map amountOr0 (calculateOptimalAllocations ps (Fin T) rt) =
            map (\<lambda>v. jor (Some (jmul (Fin T) v)) (Fin 0))
              (map (\<lambda>p. jor (map_of ?fw (poolId p)) (Fin 0)) ps)"
    by (simp add: calculateOptimalAllocations_def applyHedgeStrategy_def Let_def comp_def
        amountOr0_def del: jor.simps jmul.simps)
  also have "\<dots> = map Fin (map (\<lambda>x. T * (x / ?t)) xs)"
    by (simp only: w) (simp add: comp_def)
  finally have am: "map amountOr0 (calculateOptimalAllocations ps (Fin T) rt) =
      map Fin (map (\<lambda>x. T * (x / ?t)) xs)" .
  have s1: "sum_list (map (\<lambda>x. x / ?t) xs) = 1"
    using n by (simp add: sum_list_divide)
  have "sum_list (map (\<lambda>x. T * (x / ?t)) xs) = T * sum_list (map (\<lambda>x. x / ?t) xs)"
    by (rule sum_list_scale)
  with s1 have s2: "sum_list (map (\<lambda>x. T * (x / ?t)) xs) = T" by simp
  show ?thesis
    using sum_fold [of 0 "map (\<lambda>x. x / ?t) xs"] sum_fold [of 0 "map (\<lambda>x. T * (x / ?t)) xs"]
    by (simp only: pc w am s1 s2) simp
qed

text \<open>
  C1 at risk tolerance low with the two pools \<^verbatim>\<open>SOL_USDC\<close> and \<^verbatim>\<open>CBBTC_USDC\<close>, 10000
  invested. Neither pool is a stablecoin or hedge pool, so each base weight is
  \<^verbatim>\<open>0.30 / (totalPools - 2)\<close>, a division by zero: Infinity. The normalization divides
  Infinity by Infinity, NaN, and \<^verbatim>\<open>finalWeights[pool.poolId] || 0\<close> turns NaN into 0:
  both pools get weight 0 and amount 0, and the amounts add up to 0. At risk tolerance
  high the same happens through \<^verbatim>\<open>0.35 / (totalPools - 3)\<close> with three pools.
\<close>

theorem low_two_pools_sum_zero:
  "adjustWeightsForRiskTolerance
     (getPoolsData (mockClient (1 / 2) 0) [''SOL_USDC'', ''CBBTC_USDC'']) Low =
     [(''SOL_USDC'', PInf), (''CBBTC_USDC'', PInf)] \<and>
   applyHedgeStrategy (getPoolsData (mockClient (1 / 2) 0) [''SOL_USDC'', ''CBBTC_USDC''])
     [(''SOL_USDC'', PInf), (''CBBTC_USDC'', PInf)] =
     [(''SOL_USDC'', NaN), (''CBBTC_USDC'', NaN)] \<and>
   map allocationSuggestion
     (calculateOptimalAllocations
        (getPoolsData (mockClient (1 / 2) 0) [''SOL_USDC'', ''CBBTC_USDC'']) (Fin 10000) Low) =
     [Some \<lparr>amount = Fin 0, percentage = Fin 0\<rparr>,
      Some \<lparr>amount = Fin 0, percentage = Fin 0\<rparr>] \<and>
   foldl jadd (Fin 0) (map amountOr0
     (calculateOptimalAllocations
        (getPoolsData (mockClient (1 / 2) 0) [''SOL_USDC'', ''CBBTC_USDC'']) (Fin 10000) Low)) =
     Fin 0 \<and>
   map allocationSuggestion
     (calculateOptimalAllocations
        (getPoolsData (mockClient (1 / 2) 0) [''SOL_USDC'', ''CBBTC_USDC'', ''EURC_USDC''])
        (Fin 10000) High) =
     [Some \<lparr>amount = Fin 0, percentage = Fin 0\<rparr>,
      Some \<lparr>amount = Fin 0, percentage = Fin 0\<rparr>,
      Some \<lparr>amount = Fin 0, percentage = Fin 0\<rparr>]"
  by (simp add: mock_run allocation_run amountOr0_def)

end
